theory Spec2Isabelle
  imports Complex_Main "HOL-Library.Sublist"
begin

section \<open>Python text\<close>

text \<open>
  A Python \<open>str\<close> is modelled as a \<open>string\<close>: ASCII characters are themselves and a
  character beyond ASCII is the sequence of its UTF-8 bytes.  The \<open>str\<close> methods the two
  shells call are written out on that representation: whitespace is the ASCII whitespace
  of \<open>str.isspace\<close>, and \<open>str.lower\<close> maps the letters A to Z (bytes beyond ASCII stay
  as they are).
\<close>

definition is_space :: "char \<Rightarrow> bool" where
  "is_space c = (c \<in> set [CHR 0x09, CHR 0x0A, CHR 0x0B, CHR 0x0C, CHR 0x0D,
      CHR 0x1C, CHR 0x1D, CHR 0x1E, CHR 0x1F, CHR 0x20])"

definition ascii_uppercase :: string where
  "ascii_uppercase = ''ABCDEFGHIJKLMNOPQRSTUVWXYZ''"

definition ascii_lowercase :: string where
  "ascii_lowercase = ''abcdefghijklmnopqrstuvwxyz''"

definition lower_char :: "char \<Rightarrow> char" where
  "lower_char c =
     (case map_of (zip ascii_uppercase ascii_lowercase) c of Some d \<Rightarrow> d | None \<Rightarrow> c)"

text \<open>\<open>s.lower()\<close>\<close>

definition lower :: "string \<Rightarrow> string" where
  "lower s = map lower_char s"

text \<open>\<open>s.lstrip()\<close>, \<open>s.rstrip()\<close> and \<open>s.strip()\<close>\<close>

definition lstrip :: "string \<Rightarrow> string" where
  "lstrip s = dropWhile is_space s"

definition rstrip :: "string \<Rightarrow> string" where
  "rstrip s = rev (dropWhile is_space (rev s))"

definition strip :: "string \<Rightarrow> string" where
  "strip s = rstrip (lstrip s)"

text \<open>
  \<open>s.split(sep)\<close> for a separator of one character: the pieces between the separators,
  empty pieces kept, so the result is never the empty list.
\<close>

fun split :: "char \<Rightarrow> string \<Rightarrow> string list" where
  "split sep [] = [[]]"
| "split sep (c # cs) =
     (if c = sep then [] # split sep cs
      else (c # hd (split sep cs)) # tl (split sep cs))"

text \<open>\<open>sep.join(xs)\<close>\<close>

fun join :: "string \<Rightarrow> string list \<Rightarrow> string" where
  "join sep [] = []"
| "join sep [x] = x"
| "join sep (x # y # ys) = x @ sep @ join sep (y # ys)"

text \<open>\<open>sub in s\<close> for two strings: \<open>sub\<close> occurs in \<open>s\<close> as a contiguous piece.\<close>

fun contains :: "string \<Rightarrow> string \<Rightarrow> bool" where
  "contains sub [] = (sub = [])"
| "contains sub (c # cs) = (prefix sub (c # cs) \<or> contains sub cs)"

section \<open>Formatting of the tags (heartmula\_gradio.py, \<open>format_tags_for_file\<close>)\<close>

definition format_tags_for_file :: "string \<Rightarrow> string" where
  "format_tags_for_file tags =
     (if tags = [] \<or> strip tags = [] then []
      else join '','' (map strip (split (CHR '','') (lower (strip tags)))))"


section \<open>Python values\<close>

text \<open>\<open>str(n)\<close> for an integer: its decimal digits, with a minus sign when negative.\<close>

definition digit_char :: "nat \<Rightarrow> char" where
  "digit_char d = ''0123456789'' ! d"

fun str_nat :: "nat \<Rightarrow> string" where
  "str_nat n = (if n < 10 then [digit_char n] else str_nat (n div 10) @ [digit_char (n mod 10)])"

declare str_nat.simps [simp del]

definition str_int :: "int \<Rightarrow> string" where
  "str_int i = (if i < 0 then ''-'' @ str_nat (nat (- i)) else str_nat (nat i))"

text \<open>
  The exceptions that the modelled code can raise. \<open>OSError\<close> stands for the failures of
  reading a path that is not a readable file.
\<close>

datatype error = NameError | JSONDecodeError | TypeError | AttributeError | KeyError | OSError

text \<open>A computation that returns a value or raises: \<open>Inl\<close> carries the exception.\<close>

definition bind :: "error + 'a \<Rightarrow> ('a \<Rightarrow> error + 'b) \<Rightarrow> error + 'b" where
  "bind r f = (case r of Inl e \<Rightarrow> Inl e | Inr x \<Rightarrow> f x)"

text \<open>
  The values that \<open>json.loads\<close> produces and that the fields of the settings dataclass
  hold at run time (a dataclass does not check its annotations): \<open>None\<close>, booleans,
  integers, floats, strings, lists, and dictionaries with string keys in insertion order.
  A float is carried by the rational number it denotes; no arithmetic is done on floats.
\<close>

datatype json =
    JNull
  | JBool bool
  | JInt int
  | JFloat rat
  | JStr string
  | JList "json list"
  | JObject "(string \<times> json) list"

text \<open>\<open>key in v\<close> for a string \<open>key\<close>\<close>

fun py_in :: "string \<Rightarrow> json \<Rightarrow> error + bool" where
  "py_in key (JStr s) = Inr (contains key s)"
| "py_in key (JList xs) = Inr (JStr key \<in> set xs)"
| "py_in key (JObject kvs) = Inr (key \<in> set (map fst kvs))"
| "py_in key _ = Inl TypeError"

text \<open>\<open>v[key]\<close> for a string \<open>key\<close>\<close>

fun py_getitem :: "json \<Rightarrow> string \<Rightarrow> error + json" where
  "py_getitem (JObject kvs) key = (case map_of kvs key of Some x \<Rightarrow> Inr x | None \<Rightarrow> Inl KeyError)"
| "py_getitem _ key = Inl TypeError"

text \<open>\<open>d[key] = x\<close> on the items of a dictionary: an existing key keeps its place.\<close>

fun dict_set :: "string \<Rightarrow> json \<Rightarrow> (string \<times> json) list \<Rightarrow> (string \<times> json) list" where
  "dict_set key x [] = [(key, x)]"
| "dict_set key x ((k, v) # kvs) =
     (if k = key then (key, x) # kvs else (k, v) # dict_set key x kvs)"

fun py_setitem :: "json \<Rightarrow> string \<Rightarrow> json \<Rightarrow> error + json" where
  "py_setitem (JObject kvs) key x = Inr (JObject (dict_set key x kvs))"
| "py_setitem _ key x = Inl TypeError"

text \<open>\<open>v.lower()\<close>\<close>

fun py_lower :: "json \<Rightarrow> error + string" where
  "py_lower (JStr s) = Inr (lower s)"
| "py_lower _ = Inl AttributeError"

text \<open>\<open>v.items()\<close>\<close>

fun py_items :: "json \<Rightarrow> error + (string \<times> json) list" where
  "py_items (JObject kvs) = Inr kvs"
| "py_items _ = Inl AttributeError"

text \<open>\<open>d.get(key, default)\<close> on the items of a dictionary\<close>

definition dict_get :: "(string \<times> json) list \<Rightarrow> string \<Rightarrow> json \<Rightarrow> json" where
  "dict_get kvs key d = (case map_of kvs key of Some x \<Rightarrow> x | None \<Rightarrow> d)"

section \<open>Paths and files\<close>

text \<open>
  A \<open>pathlib.Path\<close> in the POSIX flavour: whether it is absolute, and its components.
\<close>

datatype path = Path (is_absolute: bool) (parts: "string list")

text \<open>\<open>Path(s)\<close>: the components between the slashes, empty and \<open>.\<close> components dropped.\<close>

definition path_of :: "string \<Rightarrow> path" where
  "path_of s = Path (s \<noteq> [] \<and> hd s = CHR ''/'')
     (filter (\<lambda>c. c \<noteq> [] \<and> c \<noteq> ''.'') (split (CHR ''/'') s))"

text \<open>\<open>p / q\<close> for two paths, and \<open>p / name\<close> for a string\<close>

definition path_join :: "path \<Rightarrow> path \<Rightarrow> path" where
  "path_join p q = (if is_absolute q then q else Path (is_absolute p) (parts p @ parts q))"

definition child :: "path \<Rightarrow> string \<Rightarrow> path" where
  "child p name = path_join p (path_of name)"

text \<open>\<open>str(p)\<close>, \<open>p.name\<close> and \<open>p.parent\<close>\<close>

definition str_path :: "path \<Rightarrow> string" where
  "str_path p =
     (if parts p = [] then (if is_absolute p then ''/'' else ''.'')
      else (if is_absolute p then ''/'' else []) @ join ''/'' (parts p))"

definition name :: "path \<Rightarrow> string" where
  "name p = (if parts p = [] then [] else last (parts p))"

definition parent :: "path \<Rightarrow> path" where
  "parent p = Path (is_absolute p) (butlast (parts p))"

text \<open>
  \<open>p.relative_to(base)\<close>: the rest of \<open>p\<close> below \<open>base\<close>, or \<open>ValueError\<close> (here
  \<open>None\<close>) when \<open>p\<close> does not lie below \<open>base\<close>.
\<close>

definition relative_to :: "path \<Rightarrow> path \<Rightarrow> path option" where
  "relative_to p base =
     (if is_absolute p = is_absolute base \<and> prefix (parts base) (parts p)
      then Some (Path False (drop (length (parts base)) (parts p))) else None)"

text \<open>
  The file system maps a path to what is there: a directory, or a file. The two JSON
  libraries calls are taken as they are specified: a file written with
  \<open>write_text(json.dumps(v))\<close> is a file that \<open>json.loads\<close> reads back as \<open>v\<close>, kept as
  \<open>Json v\<close>; any other text is kept as \<open>Text s\<close>, and stands for a text that
  \<open>json.loads\<close> rejects. Failures of the operating system (permissions, a full disk, a
  file in the place of a directory) are not part of the model: \<open>mkdir\<close> and
  \<open>write_text\<close> succeed.
\<close>

datatype node = Dir | Text string | Json json

type_synonym fs = "path \<Rightarrow> node option"

text \<open>\<open>p.exists()\<close>\<close>

definition exists :: "fs \<Rightarrow> path \<Rightarrow> bool" where
  "exists files p = (files p \<noteq> None)"

text \<open>\<open>json.loads(p.read_text(encoding="utf-8"))\<close>\<close>

definition read_json :: "fs \<Rightarrow> path \<Rightarrow> error + json" where
  "read_json files p =
     (case files p of
        Some (Json v) \<Rightarrow> Inr v
      | Some (Text s) \<Rightarrow> Inl JSONDecodeError
      | Some Dir \<Rightarrow> Inl OSError
      | None \<Rightarrow> Inl OSError)"

text \<open>\<open>p.mkdir(parents=True, exist_ok=True)\<close>: \<open>p\<close> and the directories above it appear.\<close>

definition ancestors :: "path \<Rightarrow> path list" where
  "ancestors p = map (Path (is_absolute p)) (prefixes (parts p))"

definition mkdir_parents :: "path \<Rightarrow> fs \<Rightarrow> fs" where
  "mkdir_parents p files =
     (\<lambda>q. if q \<in> set (ancestors p) \<and> files q = None then Some Dir else files q)"

text \<open>\<open>p.write_text(s)\<close> and \<open>p.write_text(json.dumps(v, indent=2, ensure_ascii=False))\<close>\<close>

definition write_text :: "path \<Rightarrow> string \<Rightarrow> fs \<Rightarrow> fs" where
  "write_text p s files = files(p \<mapsto> Text s)"

definition write_json :: "path \<Rightarrow> json \<Rightarrow> fs \<Rightarrow> fs" where
  "write_json p v files = files(p \<mapsto> Json v)"

section \<open>Settings (\<open>MulaSettings\<close> in heartmula.py and in heartmula\_gradio.py)\<close>

text \<open>
  The two dataclasses share six fields; the desktop one adds the length in milliseconds,
  the lyrics, the tags and the auto-open flag, the browser one the length in seconds.
  A field holds whatever value the constructor was given.
\<close>

record Settings =
  model_path :: json
  version :: json
  topk :: json
  temperature :: json
  cfg_scale :: json
  output_dir :: json

record MulaSettings = Settings +
  max_audio_length_ms :: json
  lyrics_text :: json
  tags_text :: json
  auto_open_output :: json

record MulaSettings_gradio = Settings +
  max_audio_length_sec :: json

text \<open>\<open>MulaSettings()\<close>: every field at its default (heartmula.py, lines 100 to 132)\<close>

definition default_lyrics_text :: string where
  "default_lyrics_text =
     ''[Intro]'' @ [CHR 0x0A]
     @ ''Get Going Fast is so super... duper... radiant... kinetic... hyper...''
     @ [CHR 0x0A, CHR 0x0A] @ ''[Verse]'' @ [CHR 0x0A]
     @ ''turbo... mega... lightning-striker... star-glimmer...'' @ [CHR 0x0A, CHR 0x0A]
     @ ''super... pulse... shimmer... ultra... hyper... turbo...'' @ [CHR 0x0A, CHR 0x0A]
     @ ''nebula...'' @ [CHR 0x0A, CHR 0x0A] @ ''[Prechorus]'' @ [CHR 0x0A]
     @ ''echo... signal... flicker... spark... drift...'' @ [CHR 0x0A, CHR 0x0A]
     @ ''[Chorus]'' @ [CHR 0x0A]
     @ ''Get Going Fast is so super... duper... vivid... electric... soaring...''
     @ [CHR 0x0A, CHR 0x0A] @ ''ultra... hyper... turbo... mega... starlight...''
     @ [CHR 0x0A, CHR 0x0A] @ ''[Verse]'' @ [CHR 0x0A] @ ''halo... prism... glow... flow...''
     @ [CHR 0x0A, CHR 0x0A] @ ''soft... bright... endless... weightless...''
     @ [CHR 0x0A, CHR 0x0A] @ ''[Bridge]'' @ [CHR 0x0A]
     @ ''fade... rise... breathe... shine...'' @ [CHR 0x0A, CHR 0x0A] @ ''[Chorus]''
     @ [CHR 0x0A] @ ''Get Going Fast is so super... duper... radiant... kinetic... hyper...''
     @ [CHR 0x0A, CHR 0x0A] @ ''ultra... hyper... turbo... mega... starlight...''
     @ [CHR 0x0A, CHR 0x0A] @ ''[Outro]'' @ [CHR 0x0A]
     @ ''fade... rise... glow... flow... ever... onward...'' @ [CHR 0x0A]"

definition default_tags_text :: string where
  "default_tags_text =
     ''club house, female vocals, angelic, dreamy, 128 bpm, four-on-the-floor kick, offbeat open hi-hat, rolling bassline, sidechain compression, bright supersaw, riser, snare build, drop, festival energy, wide stereo''"

definition default_settings :: MulaSettings where
  "default_settings = \<lparr>
     model_path = JStr ''ckpt'',
     version = JStr ''3B'',
     topk = JInt 50,
     temperature = JFloat 1,
     cfg_scale = JFloat (3 / 2),
     output_dir = JStr ''output'',
     max_audio_length_ms = JInt 240000,
     lyrics_text = JStr default_lyrics_text,
     tags_text = JStr default_tags_text,
     auto_open_output = JBool True \<rparr>"

text \<open>\<open>MulaSettings()\<close> (heartmula\_gradio.py, lines 90 to 96)\<close>

definition default_settings_gradio :: MulaSettings_gradio where
  "default_settings_gradio = \<lparr>
     model_path = JStr ''ckpt'',
     version = JStr ''3B'',
     topk = JInt 50,
     temperature = JFloat 1,
     cfg_scale = JFloat (3 / 2),
     output_dir = JStr ''output'',
     max_audio_length_sec = JInt 240 \<rparr>"

text \<open>\<open>MulaSettings.__dataclass_fields__\<close>: the field names, in the order of declaration\<close>

definition dataclass_fields :: "string list" where
  "dataclass_fields = [''model_path'', ''version'', ''max_audio_length_ms'', ''topk'',
     ''temperature'', ''cfg_scale'', ''lyrics_text'', ''tags_text'', ''output_dir'',
     ''auto_open_output'']"

definition dataclass_fields_gradio :: "string list" where
  "dataclass_fields_gradio = [''model_path'', ''version'', ''max_audio_length_sec'', ''topk'',
     ''temperature'', ''cfg_scale'', ''output_dir'']"

text \<open>\<open>asdict(self)\<close>\<close>

definition asdict :: "MulaSettings \<Rightarrow> (string \<times> json) list" where
  "asdict s = [(''model_path'', model_path s), (''version'', version s),
     (''max_audio_length_ms'', max_audio_length_ms s), (''topk'', topk s),
     (''temperature'', temperature s), (''cfg_scale'', cfg_scale s),
     (''lyrics_text'', lyrics_text s), (''tags_text'', tags_text s),
     (''output_dir'', output_dir s), (''auto_open_output'', auto_open_output s)]"


text \<open>
  \<open>MulaSettings(**kwargs)\<close> for keyword arguments that are all field names: a field
  takes its keyword argument, or its default when there is none.
\<close>

definition construct :: "(string \<times> json) list \<Rightarrow> MulaSettings" where
  "construct kwargs = \<lparr>
     model_path = dict_get kwargs ''model_path'' (model_path default_settings),
     version = dict_get kwargs ''version'' (version default_settings),
     topk = dict_get kwargs ''topk'' (topk default_settings),
     temperature = dict_get kwargs ''temperature'' (temperature default_settings),
     cfg_scale = dict_get kwargs ''cfg_scale'' (cfg_scale default_settings),
     output_dir = dict_get kwargs ''output_dir'' (output_dir default_settings),
     max_audio_length_ms =
       dict_get kwargs ''max_audio_length_ms'' (max_audio_length_ms default_settings),
     lyrics_text = dict_get kwargs ''lyrics_text'' (lyrics_text default_settings),
     tags_text = dict_get kwargs ''tags_text'' (tags_text default_settings),
     auto_open_output =
       dict_get kwargs ''auto_open_output'' (auto_open_output default_settings) \<rparr>"

definition construct_gradio :: "(string \<times> json) list \<Rightarrow> MulaSettings_gradio" where
  "construct_gradio kwargs = \<lparr>
     model_path = dict_get kwargs ''model_path'' (model_path default_settings_gradio),
     version = dict_get kwargs ''version'' (version default_settings_gradio),
     topk = dict_get kwargs ''topk'' (topk default_settings_gradio),
     temperature = dict_get kwargs ''temperature'' (temperature default_settings_gradio),
     cfg_scale = dict_get kwargs ''cfg_scale'' (cfg_scale default_settings_gradio),
     output_dir = dict_get kwargs ''output_dir'' (output_dir default_settings_gradio),
     max_audio_length_sec =
       dict_get kwargs ''max_audio_length_sec''
         (max_audio_length_sec default_settings_gradio) \<rparr>"


text \<open>
  The migration of old model paths, the same lines in both files (heartmula.py 143 to
  146, heartmula\_gradio.py 107 to 110):
  \<^verbatim>\<open>if "model_path" in data:\<close>
  \<^verbatim>\<open>    old_path = data["model_path"]\<close>
  \<^verbatim>\<open>    if "models/HeartMuLa" in old_path or "models/heartmula" in old_path.lower():\<close>
  \<^verbatim>\<open>        data["model_path"] = "ckpt"\<close>
  The result is \<open>data\<close> after these lines, or the exception they raise.
\<close>

definition migrate :: "json \<Rightarrow> error + json" where
  "migrate d =
     bind (py_in ''model_path'' d) (\<lambda>present.
       if \<not> present then Inr d
       else bind (py_getitem d ''model_path'') (\<lambda>old_path.
         bind (py_in ''models/HeartMuLa'' old_path) (\<lambda>legacy.
           if legacy then py_setitem d ''model_path'' (JStr ''ckpt'')
           else bind (py_lower old_path) (\<lambda>low.
             if contains ''models/heartmula'' low
             then py_setitem d ''model_path'' (JStr ''ckpt'')
             else Inr d))))"

text \<open>
  The body of the \<open>try\<close> of \<open>load\<close> (heartmula.py, lines 140 to 148): read and parse
  the file, migrate, keep the items whose key is a field name, construct the record.
\<close>

definition load_body :: "fs \<Rightarrow> path \<Rightarrow> error + MulaSettings" where
  "load_body files p =
     bind (read_json files p) (\<lambda>d.
     bind (migrate d) (\<lambda>d.
     bind (py_items d) (\<lambda>items.
       Inr (construct (filter (\<lambda>(k, v). k \<in> set dataclass_fields) items)))))"

definition load_body_gradio :: "fs \<Rightarrow> path \<Rightarrow> error + MulaSettings_gradio" where
  "load_body_gradio files p =
     bind (read_json files p) (\<lambda>d.
     bind (migrate d) (\<lambda>d.
     bind (py_items d) (\<lambda>items.
       Inr (construct_gradio (filter (\<lambda>(k, v). k \<in> set dataclass_fields_gradio) items)))))"

text \<open>
  \<open>MulaSettings.load(path)\<close> of the desktop shell (heartmula.py, lines 134 to 150).
  Its handler is \<^verbatim>\<open>except Exception: return sMulaSettings()\<close>, and no name
  \<open>sMulaSettings\<close> is defined in the module: evaluating it raises \<open>NameError\<close>, which leaves
  \<open>load\<close>.
\<close>

definition load :: "fs \<Rightarrow> path \<Rightarrow> error + MulaSettings" where
  "load files p =
     (if \<not> exists files p then Inr default_settings
      else case load_body files p of
             Inr s \<Rightarrow> Inr s
           | Inl e \<Rightarrow> Inl NameError)"

text \<open>
  \<open>MulaSettings.load(path)\<close> of the browser shell (heartmula\_gradio.py, lines 98 to
  114). Its handler is \<^verbatim>\<open>except Exception: return MulaSettings()\<close>.
\<close>

definition load_gradio :: "fs \<Rightarrow> path \<Rightarrow> error + MulaSettings_gradio" where
  "load_gradio files p =
     (if \<not> exists files p then Inr default_settings_gradio
      else case load_body_gradio files p of
             Inr s \<Rightarrow> Inr s
           | Inl e \<Rightarrow> Inr default_settings_gradio)"

text \<open>\<open>save(self, path)\<close> (heartmula.py 152 to 155, heartmula\_gradio.py 116 to 119)\<close>

definition save :: "MulaSettings \<Rightarrow> path \<Rightarrow> fs \<Rightarrow> fs" where
  "save s p files = write_json p (JObject (asdict s)) (mkdir_parents (parent p) files)"


section \<open>Presets (\<open>default_presets\<close> and \<open>PresetManager\<close>)\<close>

text \<open>The two shapes of dictionary in the catalog: a preset and a genre.\<close>

definition preset :: "string \<Rightarrow> string \<Rightarrow> json" where
  "preset n t = JObject [(''name'', JStr n), (''tags'', JStr t)]"

definition genre :: "string \<Rightarrow> json list \<Rightarrow> json" where
  "genre n ps = JObject [(''name'', JStr n), (''presets'', JList ps)]"

text \<open>
  \<open>default_presets()\<close> of heartmula\_gradio.py (lines 122 to 203), every string with the
  bytes it has in the source file. The dash of the preset names is stored there as the
  three characters U+201A, U+00C4, U+00EC (seven bytes), not as U+2013. The catalog of
  heartmula.py (lines 158 to 239) is the same but for these bytes: it has U+00E2, U+20AC,
  U+201C in their place.
\<close>

definition default_presets :: json where
  "default_presets = JObject [(''version'', JInt 1), (''genres'', JList [
     genre ''EDM'' [
       preset (''House '' @ [CHR 0xE2, CHR 0x80, CHR 0x9A, CHR 0xC3, CHR 0x84, CHR 0xC3, CHR 0xAC] @ '' Club'')
         (''club house, 128 bpm, four-on-the-floor kick, offbeat open hi-hat, rolling bassline, sidechain compression, bright supersaw, riser, snare build, drop, festival energy, wide stereo''),
       preset (''Tech House'')
         (''tech house, 128 bpm, punchy kick and snare, groovy bass, syncopated percussion, shaker loop, minimal vocals, tension build, big drop, club mix''),
       preset (''Melodic Techno'')
         (''melodic techno, 126 bpm, driving kick, hypnotic arp, dark atmosphere, long buildup, impact hit, drop, cinematic pads''),
       preset (''Big Room'')
         (''big room, 130 bpm, huge kick, snare roll buildup, white noise riser, supersaw lead, massive drop, festival''),
       preset (''Drum & Bass '' @ [CHR 0xE2, CHR 0x80, CHR 0x9A, CHR 0xC3, CHR 0x84, CHR 0xC3, CHR 0xAC] @ '' Dancefloor'')
         (''drum and bass, 174 bpm, fast breakbeat, punchy kick and snare, rolling sub bass, reese bass, high energy, tension build, riser, impact hit, big drop, energetic synth stabs, atmospheric pad, DJ friendly, loop-based, minimal vocal chops''),
       preset (''Drum & Bass '' @ [CHR 0xE2, CHR 0x80, CHR 0x9A, CHR 0xC3, CHR 0x84, CHR 0xC3, CHR 0xAC] @ '' Neurofunk'')
         (''neurofunk, drum and bass, 172 bpm, tight snare, aggressive reese bass, growl bass, syncopated drums, gritty texture, dark atmosphere, industrial sound design, long buildup, snare roll, heavy drop, bass variation, minimal vocals, club mix, hard hitting''),
       preset (''Drum & Bass '' @ [CHR 0xE2, CHR 0x80, CHR 0x9A, CHR 0xC3, CHR 0x84, CHR 0xC3, CHR 0xAC] @ '' Liquid'')
         (''liquid drum and bass, 170 bpm, crisp breakbeat, warm sub bass, airy pads, emotional chords, clean mix, gentle riser, smooth drop, melodic lead, spacious reverb, minimal vocals, DJ friendly intro and outro''),
       preset (''Techno '' @ [CHR 0xE2, CHR 0x80, CHR 0x9A, CHR 0xC3, CHR 0x84, CHR 0xC3, CHR 0xAC] @ '' Driving Warehouse'')
         (''techno, 130 bpm, four-on-the-floor kick, rumbling bass, rolling percussion, offbeat hi-hat, hypnotic loop, dark warehouse, minimal vocals, repetitive groove, long buildup, tension, impact hit, drop, DJ friendly''),
       preset (''Techno '' @ [CHR 0xE2, CHR 0x80, CHR 0x9A, CHR 0xC3, CHR 0x84, CHR 0xC3, CHR 0xAC] @ '' Peak Time'')
         (''peak time techno, 132 bpm, powerful kick, driving bassline, big synth stab, build-up with snare roll, white noise riser, huge drop, energetic percussion, club mix, loop-based, crowd energy''),
       preset (''Techno '' @ [CHR 0xE2, CHR 0x80, CHR 0x9A, CHR 0xC3, CHR 0x84, CHR 0xC3, CHR 0xAC] @ '' Melodic'')
         (''melodic techno, 126 bpm, driving kick, arpeggiated synth, deep bass, cinematic pad, gradual buildup, impact hit, drop, wide stereo, minimal vocal chops, DJ friendly''),
       preset (''Hard Techno '' @ [CHR 0xE2, CHR 0x80, CHR 0x9A, CHR 0xC3, CHR 0x84, CHR 0xC3, CHR 0xAC] @ '' Rave'')
         (''hard techno, 150 bpm, hard four-on-the-floor kick, distorted rumble bass, aggressive percussion, rave stabs, intense energy, fast hats, build-up, snare roll, white noise riser, brutal drop, warehouse rave, relentless''),
       preset (''Hard Techno '' @ [CHR 0xE2, CHR 0x80, CHR 0x9A, CHR 0xC3, CHR 0x84, CHR 0xC3, CHR 0xAC] @ '' Industrial'')
         (''industrial hard techno, 145 bpm, heavy distorted kick, metallic percussion, dark atmosphere, gritty texture, pounding groove, relentless drive, tension build, impact hit, drop, harsh synth, underground''),
       preset (''Hard Techno '' @ [CHR 0xE2, CHR 0x80, CHR 0x9A, CHR 0xC3, CHR 0x84, CHR 0xC3, CHR 0xAC] @ '' Hardgroove'')
         (''hardgroove techno, 145 bpm, hard kick, groovy tom percussion, syncopated loops, fast hats, tribal percussion, hypnotic repetition, long buildup, drop, rave energy, DJ friendly'')],
     genre ''Rock'' [
       preset (''Rock '' @ [CHR 0xE2, CHR 0x80, CHR 0x9A, CHR 0xC3, CHR 0x84, CHR 0xC3, CHR 0xAC] @ '' Classic'')
         (''classic rock, 120 bpm, live drum kit, steady rock groove, crunchy rhythm guitars, melodic lead guitar, electric bass, verse chorus structure, big chorus, warm analog mix, arena feel''),
       preset (''Rock '' @ [CHR 0xE2, CHR 0x80, CHR 0x9A, CHR 0xC3, CHR 0x84, CHR 0xC3, CHR 0xAC] @ '' Hard Rock'')
         (''hard rock, 140 bpm, driving drums, punchy kick and snare, distorted power chords, palm-muted riffs, big chorus, guitar solo, gritty vocals, aggressive energy, modern rock mix, wide guitars''),
       preset (''Rock '' @ [CHR 0xE2, CHR 0x80, CHR 0x9A, CHR 0xC3, CHR 0x84, CHR 0xC3, CHR 0xAC] @ '' Metal'')
         (''heavy metal, 160 bpm, double kick, tight snare, fast riffs, palm-muted chugs, aggressive guitar tone, heavy bass, breakdown, solo section, intense vocals, raw power'')],
     genre ''Pop'' [
       preset (''Pop '' @ [CHR 0xE2, CHR 0x80, CHR 0x9A, CHR 0xC3, CHR 0x84, CHR 0xC3, CHR 0xAC] @ '' Modern'')
         (''modern pop, 118 bpm, clean punchy drums, bright synths, catchy hook, verse chorus structure, big chorus, polished vocal production, radio-ready mix, uplifting mood, wide stereo''),
       preset (''Pop '' @ [CHR 0xE2, CHR 0x80, CHR 0x9A, CHR 0xC3, CHR 0x84, CHR 0xC3, CHR 0xAC] @ '' Synthpop'')
         (''synthpop, 112 bpm, retro drum machine, gated snare, warm analog synths, arpeggiator, catchy melody, dreamy chords, smooth vocals, nostalgic 80s vibe, clean mix''),
       preset (''Pop '' @ [CHR 0xE2, CHR 0x80, CHR 0x9A, CHR 0xC3, CHR 0x84, CHR 0xC3, CHR 0xAC] @ '' Dance Pop'')
         (''dance pop, 124 bpm, four-on-the-floor kick, offbeat open hat, bright chords, sidechain compression, vocal hook, pre-chorus build, drop-style chorus, club-friendly, glossy mix'')],
     genre ''R&B'' [
       preset (''R&B '' @ [CHR 0xE2, CHR 0x80, CHR 0x9A, CHR 0xC3, CHR 0x84, CHR 0xC3, CHR 0xAC] @ '' Contemporary'')
         (''contemporary r&b, 92 bpm, smooth drums, deep sub bass, lush chords, soulful vocals, modern vocal layers, relaxed groove, intimate vibe, polished mix''),
       preset (''R&B '' @ [CHR 0xE2, CHR 0x80, CHR 0x9A, CHR 0xC3, CHR 0x84, CHR 0xC3, CHR 0xAC] @ '' Neo Soul'')
         (''neo soul, 85 bpm, swung groove, warm electric piano, jazzy chords, live bass feel, crisp snare, intimate vocals, laid-back pocket, organic texture, smooth mix''),
       preset (''R&B '' @ [CHR 0xE2, CHR 0x80, CHR 0x9A, CHR 0xC3, CHR 0x84, CHR 0xC3, CHR 0xAC] @ '' Trap Soul'')
         (''trap soul, 70 bpm, trap hats, 808 bass, minimal chords, airy pads, moody vibe, melodic vocals, emotional hook, sparse arrangement, late-night atmosphere'')],
     genre ''Rap'' [
       preset (''Rap '' @ [CHR 0xE2, CHR 0x80, CHR 0x9A, CHR 0xC3, CHR 0x84, CHR 0xC3, CHR 0xAC] @ '' Boom Bap'')
         (''boom bap rap, 92 bpm, classic hip hop drums, punchy kick, snappy snare, sampled vibe, chopped loop, gritty texture, head-nod groove, rap-focused, raw mix''),
       preset (''Rap '' @ [CHR 0xE2, CHR 0x80, CHR 0x9A, CHR 0xC3, CHR 0x84, CHR 0xC3, CHR 0xAC] @ '' Trap'')
         (''trap rap, 140 bpm, rapid hi-hats, 808 bass, hard snare, dark synth melody, aggressive energy, hook section, beat switch, modern mix, rap-focused''),
       preset (''Rap '' @ [CHR 0xE2, CHR 0x80, CHR 0x9A, CHR 0xC3, CHR 0x84, CHR 0xC3, CHR 0xAC] @ '' Drill'')
         (''drill rap, 145 bpm, sliding 808, sharp snare, syncopated hi-hats, dark piano or bell melody, tense vibe, aggressive rhythm, rap-forward, hard mix'')],
     genre ''Ballad / Slow'' [
       preset (''Ballad '' @ [CHR 0xE2, CHR 0x80, CHR 0x9A, CHR 0xC3, CHR 0x84, CHR 0xC3, CHR 0xAC] @ '' Piano'')
         (''piano ballad, 72 bpm, emotional piano chords, soft drums, gentle strings, intimate vocals, big chorus lift, gradual build, heartfelt mood, warm reverb''),
       preset (''Ballad '' @ [CHR 0xE2, CHR 0x80, CHR 0x9A, CHR 0xC3, CHR 0x84, CHR 0xC3, CHR 0xAC] @ '' Acoustic'')
         (''acoustic ballad, 78 bpm, acoustic guitar fingerpicking, soft percussion, warm bass, intimate vocal, emotional chorus, natural room sound, organic performance''),
       preset (''Ballad '' @ [CHR 0xE2, CHR 0x80, CHR 0x9A, CHR 0xC3, CHR 0x84, CHR 0xC3, CHR 0xAC] @ '' Cinematic'')
         (''cinematic ballad, 68 bpm, orchestral strings, piano, soft drums, emotional swells, dramatic build, big climax, film score feel, lush reverb'')],
     genre ''Instrumental'' [
       preset (''Instrumental '' @ [CHR 0xE2, CHR 0x80, CHR 0x9A, CHR 0xC3, CHR 0x84, CHR 0xC3, CHR 0xAC] @ '' Ambient'')
         (''ambient instrumental, 70 bpm, evolving pads, soft textures, spacious reverb, slow movement, atmospheric drones, minimal percussion, calming mood, cinematic soundscape, no vocals''),
       preset (''Instrumental '' @ [CHR 0xE2, CHR 0x80, CHR 0x9A, CHR 0xC3, CHR 0x84, CHR 0xC3, CHR 0xAC] @ '' Lo-fi'')
         (''lofi instrumental, 82 bpm, dusty drums, vinyl crackle texture, jazzy chords, warm bass, relaxed groove, soft melody, chill mood, loop-based, no vocals''),
       preset (''Instrumental '' @ [CHR 0xE2, CHR 0x80, CHR 0x9A, CHR 0xC3, CHR 0x84, CHR 0xC3, CHR 0xAC] @ '' Orchestral'')
         (''orchestral instrumental, 90 bpm, strings brass woodwinds, cinematic percussion, emotional theme, dynamic build, heroic climax, film score style, wide stereo, no vocals'')],
     genre ''Reggae'' [
       preset (''Reggae '' @ [CHR 0xE2, CHR 0x80, CHR 0x9A, CHR 0xC3, CHR 0x84, CHR 0xC3, CHR 0xAC] @ '' Roots'')
         (''roots reggae, 74 bpm, one drop rhythm, skank guitar on offbeat, warm bassline, live drums, relaxed groove, sunny vibe, soulful vocals, organic mix''),
       preset (''Reggae '' @ [CHR 0xE2, CHR 0x80, CHR 0x9A, CHR 0xC3, CHR 0x84, CHR 0xC3, CHR 0xAC] @ '' Dancehall'')
         (''dancehall, 96 bpm, modern drum pattern, heavy bass, syncopated rhythm, energetic vibe, catchy chant hook, club-ready, bright synth accents, punchy mix''),
       preset (''Reggae '' @ [CHR 0xE2, CHR 0x80, CHR 0x9A, CHR 0xC3, CHR 0x84, CHR 0xC3, CHR 0xAC] @ '' Dub'')
         (''dub reggae, 72 bpm, deep bass, sparse drums, skank guitar, heavy reverb and delay, echo effects, spacey atmosphere, minimalist groove, instrumental focus'')],
     genre ''Custom'' []])]"

text \<open>
  \<open>PresetManager\<close> (heartmula.py 242 to 265, heartmula\_gradio.py 206 to 240): the path
  of the preset file and the catalog in memory, \<open>{}\<close> before the first load.
\<close>

record PresetManager =
  path :: path
  data :: json

definition init :: "path \<Rightarrow> PresetManager" where
  "init p = \<lparr> path = p, data = JObject [] \<rparr>"

text \<open>\<open>save(self)\<close>\<close>

definition save_presets :: "PresetManager \<Rightarrow> fs \<Rightarrow> fs" where
  "save_presets pm files =
     write_json (path pm) (data pm) (mkdir_parents (parent (path pm)) files)"

text \<open>\<open>isinstance(d, dict) and "genres" in d\<close>\<close>

fun has_genres :: "json \<Rightarrow> bool" where
  "has_genres (JObject kvs) = (''genres'' \<in> set (map fst kvs))"
| "has_genres _ = False"

text \<open>
  \<open>load(self)\<close>: the catalog returned, the manager and the file system afterwards.
  \<open>builtin\<close> is what the module's \<open>default_presets()\<close> returns. When the file parses
  but has no \<open>genres\<close> key, \<open>self.data\<close> first takes the parsed value and then the
  built-in catalog.
\<close>

definition load_presets :: "json \<Rightarrow> PresetManager \<Rightarrow> fs \<Rightarrow> json \<times> PresetManager \<times> fs" where
  "load_presets builtin pm files =
     (let fallback = (\<lambda>pm. let pm' = pm\<lparr>data := builtin\<rparr>
                              in (data pm', pm', save_presets pm' files))
      in if exists files (path pm) then
           (case read_json files (path pm) of
              Inr d \<Rightarrow>
                (let pm1 = pm\<lparr>data := d\<rparr>
                 in if has_genres (data pm1) then (data pm1, pm1, files) else fallback pm1)
            | Inl e \<Rightarrow> fallback pm)
         else fallback pm)"

text \<open>\<open>v.get(key, default)\<close>: only a dictionary has the method.\<close>

fun py_get :: "json \<Rightarrow> string \<Rightarrow> json \<Rightarrow> error + json" where
  "py_get (JObject kvs) key d = Inr (dict_get kvs key d)"
| "py_get _ key d = Inl AttributeError"

text \<open>
  \<open>for x in v\<close>: the elements of a list, the keys of a dictionary, the characters of a
  string (each a string of its own).
\<close>

fun py_iter :: "json \<Rightarrow> error + json list" where
  "py_iter (JList xs) = Inr xs"
| "py_iter (JObject kvs) = Inr (map (\<lambda>kv. JStr (fst kv)) kvs)"
| "py_iter (JStr s) = Inr (map (\<lambda>c. JStr [c]) s)"
| "py_iter _ = Inl TypeError"

text \<open>\<open>[g["name"] for g in gs]\<close>\<close>

fun names_of :: "json list \<Rightarrow> error + json list" where
  "names_of [] = Inr []"
| "names_of (g # gs) =
     bind (py_getitem g ''name'') (\<lambda>n. bind (names_of gs) (\<lambda>ns. Inr (n # ns)))"

text \<open>\<open>get_genre_names(self)\<close> (heartmula\_gradio.py, lines 231 to 233)\<close>

definition get_genre_names :: "PresetManager \<Rightarrow> error + json list" where
  "get_genre_names pm =
     bind (py_get (data pm) ''genres'' (JList [])) (\<lambda>genres.
     bind (py_iter genres) names_of)"

text \<open>
  The loop of \<open>get_presets_for_genre\<close>: the presets of the first genre of that name,
  \<open>[]\<close> when the genres are exhausted.
\<close>

fun find_genre :: "json list \<Rightarrow> string \<Rightarrow> error + json" where
  "find_genre [] genre_name = Inr (JList [])"
| "find_genre (g # gs) genre_name =
     bind (py_getitem g ''name'') (\<lambda>n.
       if n = JStr genre_name then py_get g ''presets'' (JList [])
       else find_genre gs genre_name)"

text \<open>\<open>get_presets_for_genre(self, genre_name)\<close> (heartmula\_gradio.py, lines 235 to 240)\<close>

definition get_presets_for_genre :: "PresetManager \<Rightarrow> string \<Rightarrow> error + json" where
  "get_presets_for_genre pm genre_name =
     bind (py_get (data pm) ''genres'' (JList [])) (\<lambda>genres.
     bind (py_iter genres) (\<lambda>gs. find_genre gs genre_name))"

section \<open>Validation of the installation (\<open>validate_installation\<close>)\<close>

text \<open>
  The model directory named by the text of the model path: relative to the root
  directory unless absolute.
\<close>

definition resolve :: "path \<Rightarrow> string \<Rightarrow> path" where
  "resolve root_dir text =
     (let p = path_of (strip text) in if is_absolute p then p else path_join root_dir p)"

text \<open>The four sub-paths that a model directory must have.\<close>

definition required :: "path \<Rightarrow> path list" where
  "required model_dir = [child model_dir ''HeartCodec-oss'', child model_dir ''HeartMuLa-oss-3B'',
     child model_dir ''gen_config.json'', child model_dir ''tokenizer.json'']"

definition script_path :: "path \<Rightarrow> path" where
  "script_path root_dir = child (child root_dir ''examples'') ''run_music_generation.py''"

text \<open>
  \<open>validate_installation\<close> (heartmula.py 923 to 952 on the text of the model path field,
  heartmula\_gradio.py 247 to 276 on its argument): the flag and the message.
\<close>

definition validate_installation :: "fs \<Rightarrow> path \<Rightarrow> string \<Rightarrow> bool \<times> string" where
  "validate_installation files root_dir text =
     (let model_dir = resolve root_dir text in
      if \<not> exists files model_dir
      then (False, ''Model directory not found: '' @ str_path model_dir)
      else
        let missing = map str_path (filter (\<lambda>p. \<not> exists files p) (required model_dir)) in
        if missing \<noteq> []
        then (False, ''Missing model files:'' @ [CHR 0x0A] @ join [CHR 0x0A] missing)
        else
          let script = script_path root_dir in
          if \<not> exists files script
          then (False, ''Generation script not found: '' @ str_path script
                  @ [CHR 0x0A, CHR 0x0A] @ ''Expected location: examples/run_music_generation.py'')
          else (True, []))"

section \<open>The name of the output file\<close>

text \<open>
  \<open>datetime.now()\<close> and \<open>strftime("%Y%m%d_%H%M%S")\<close>: the fields of the moment, each
  written in decimal and padded with zeros to its width.
\<close>

record datetime =
  year :: nat
  month :: nat
  day :: nat
  hour :: nat
  minute :: nat
  second :: nat

definition zero_pad :: "nat \<Rightarrow> nat \<Rightarrow> string" where
  "zero_pad width n = replicate (width - length (str_nat n)) (CHR ''0'') @ str_nat n"

definition strftime :: "datetime \<Rightarrow> string" where
  "strftime t = zero_pad 4 (year t) @ zero_pad 2 (month t) @ zero_pad 2 (day t) @ ''_''
     @ zero_pad 2 (hour t) @ zero_pad 2 (minute t) @ zero_pad 2 (second t)"

text \<open>
  The two file names, \<^verbatim>\<open>f"heartmula_{timestamp}.mp3"\<close> and
  \<^verbatim>\<open>f"heartmula_{timestamp}_{counter}.mp3"\<close>.
\<close>

definition plain_name :: "string \<Rightarrow> string" where
  "plain_name timestamp = ''heartmula_'' @ timestamp @ ''.mp3''"

definition numbered_name :: "string \<Rightarrow> int \<Rightarrow> string" where
  "numbered_name timestamp counter = ''heartmula_'' @ timestamp @ ''_'' @ str_int counter @ ''.mp3''"

text \<open>
  The loop (heartmula.py 982 to 985, heartmula\_gradio.py 316 to 319) on its two
  variables \<open>output_file\<close> and \<open>counter\<close>:
  \<^verbatim>\<open>while output_file.exists():\<close>
  \<^verbatim>\<open>    filename = f"heartmula_{timestamp}_{counter}.mp3"\<close>
  \<^verbatim>\<open>    output_file = output_dir / filename\<close>
  \<^verbatim>\<open>    counter += 1\<close>
  The result is \<open>output_file\<close> when the loop ends, \<open>None\<close> when it does not end.
\<close>

partial_function (option) probe :: "fs \<Rightarrow> path \<Rightarrow> string \<Rightarrow> path \<Rightarrow> int \<Rightarrow> path option" where
  "probe files dir timestamp output_file counter =
     (if exists files output_file
      then probe files dir timestamp (child dir (numbered_name timestamp counter)) (counter + 1)
      else Some output_file)"

text \<open>The lines before the loop (heartmula.py 977 to 981) and the loop.\<close>

definition unique_output_file :: "fs \<Rightarrow> path \<Rightarrow> datetime \<Rightarrow> path option" where
  "unique_output_file files dir now =
     (let timestamp = strftime now
      in probe files dir timestamp (child dir (plain_name timestamp)) 1)"


section \<open>The world around the two shells\<close>

text \<open>
  What a shell acts on: the file system, the commands it has handed to
  \<open>subprocess.Popen\<close> or \<open>QProcess.start\<close>, in order, and the paths it has handed to
  the desktop to be opened.
\<close>

record world =
  disk :: fs
  spawned :: "string list list"
  opened :: "path list"

text \<open>
  How a started process ends: an exception raised while it is started or read (with its
  text), or an exit with the lines it printed and its return code.
\<close>

datatype outcome = Raised string | Exited "string list" int

text \<open>
  What the code takes from its surroundings: the directory of the script
  (\<open>root_dir()\<close>), the clock (\<open>datetime.now()\<close>), the interpreter
  (\<open>sys.executable\<close>), how Python writes a float in an f-string, and what the external
  generation script does with a command line on a file system.
\<close>

record env =
  env_root :: path
  env_now :: datetime
  python_exe :: string
  str_float :: "rat \<Rightarrow> string"
  popen :: "string list \<Rightarrow> fs \<Rightarrow> outcome \<times> fs"

text \<open>\<open>x or d\<close> for a string that may be \<open>None\<close>: \<open>d\<close> when \<open>x\<close> is \<open>None\<close> or empty.\<close>

fun py_or :: "string option \<Rightarrow> string \<Rightarrow> string" where
  "py_or None d = d"
| "py_or (Some s) d = (if s = [] then d else s)"

text \<open>
  The output directory (heartmula.py 971 to 973, heartmula\_gradio.py 306 to 308):
  \<^verbatim>\<open>Path(output_dir.strip() or "output")\<close>, below the root unless absolute.
\<close>

definition resolve_output_dir :: "path \<Rightarrow> string \<Rightarrow> path" where
  "resolve_output_dir root_dir text =
     (let p = path_of (py_or (Some (strip text)) ''output'')
      in if is_absolute p then p else path_join root_dir p)"

section \<open>The browser shell (heartmula\_gradio.py, \<open>generate_music\<close>)\<close>

text \<open>The save path on the command line (lines 336 to 341).\<close>

definition output_path_for_cli :: "path \<Rightarrow> path \<Rightarrow> string" where
  "output_path_for_cli root_dir output_file =
     (case relative_to output_file root_dir of
        Some relative_output \<Rightarrow> ''.'' @ [CHR 0x5C] @ str_path relative_output
      | None \<Rightarrow> ''.'' @ [CHR 0x5C] @ ''output'' @ [CHR 0x5C] @ name output_file)"

text \<open>
  The command (lines 344 to 356). The model path of the request is not among what it is
  built from: the element is the constant \<^verbatim>\<open>f"--model_path=.\\ckpt"\<close>.
\<close>

definition gradio_cmd ::
  "env \<Rightarrow> string \<Rightarrow> string \<Rightarrow> int \<Rightarrow> int \<Rightarrow> rat \<Rightarrow> rat \<Rightarrow> string list" where
  "gradio_cmd e ver cli_path max_length_sec tk temp cfg =
     [python_exe e,
      ''.'' @ [CHR 0x5C] @ ''examples'' @ [CHR 0x5C] @ ''run_music_generation.py'',
      ''--model_path=.'' @ [CHR 0x5C] @ ''ckpt'',
      ''--version='' @ ver,
      ''--lyrics=.'' @ [CHR 0x5C] @ ''assets'' @ [CHR 0x5C] @ ''lyrics.txt'',
      ''--tags=.'' @ [CHR 0x5C] @ ''assets'' @ [CHR 0x5C] @ ''tags.txt'',
      ''--save_path='' @ cli_path,
      ''--max_audio_length_ms='' @ str_int (max_length_sec * 1000),
      ''--topk='' @ str_int tk,
      ''--temperature='' @ str_float e temp,
      ''--cfg_scale='' @ str_float e cfg]"

text \<open>\<open>xs[-20:]\<close>\<close>

definition last20 :: "'a list \<Rightarrow> 'a list" where
  "last20 xs = drop (length xs - 20) xs"

text \<open>
  \<open>generate_music\<close> (lines 279 to 421) has the arguments \<open>model_path\<close>, \<open>version\<close>,
  \<open>tags\<close>, \<open>lyrics\<close>, \<open>max_length_sec\<close>, \<open>topk\<close>, \<open>temperature\<close>, \<open>cfg_scale\<close> and
  \<open>output_dir\<close>. It is written here in its three parts: the validation, the preparation
  and the run. The calls of \<open>progress\<close> draw on the page and are left out.

  The preparation (lines 300 to 359): the output file, the formatted tags, the command,
  and the world with the two scratch files written. \<open>None\<close> when the loop that looks
  for a free file name does not end.
\<close>

definition prepare_gradio ::
  "env \<Rightarrow> world \<Rightarrow> string \<Rightarrow> string option \<Rightarrow> string option \<Rightarrow> int \<Rightarrow> int \<Rightarrow> rat \<Rightarrow> rat
     \<Rightarrow> string \<Rightarrow> (path \<times> string \<times> string list \<times> world) option" where
  "prepare_gradio e w ver tags lyrics max_length_sec tk temp cfg out =
     (let out_dir = resolve_output_dir (env_root e) out;
          disk1 = mkdir_parents out_dir (disk w)
      in case unique_output_file disk1 out_dir (env_now e) of
           None \<Rightarrow> None
         | Some output_file \<Rightarrow>
            (let assets_dir = child (env_root e) ''assets'';
                 disk2 = mkdir_parents assets_dir disk1;
                 formatted_tags = format_tags_for_file (py_or tags []);
                 disk3 = write_text (child assets_dir ''lyrics.txt'')
                           (py_or lyrics [] @ [CHR 0x0A]) disk2;
                 disk4 = write_text (child assets_dir ''tags.txt'')
                           (formatted_tags @ [CHR 0x0A]) disk3;
                 cmd = gradio_cmd e ver (output_path_for_cli (env_root e) output_file)
                         max_length_sec tk temp cfg
             in Some (output_file, formatted_tags, cmd, w\<lparr>disk := disk4\<rparr>)))"

text \<open>
  The run (lines 363 to 421): the process is started on the prepared world, and the
  pair that \<open>generate_music\<close> returns (the audio path or \<open>None\<close>, and the status text)
  is made from how it ends.
\<close>

definition run_gradio ::
  "env \<Rightarrow> world \<Rightarrow> string option \<Rightarrow> path \<Rightarrow> string \<Rightarrow> string list
     \<Rightarrow> (string option \<times> string) \<times> world" where
  "run_gradio e w tags output_file formatted_tags cmd =
     (let cli_command = join '' '' cmd;
          w1 = w\<lparr>spawned := spawned w @ [cmd]\<rparr>
      in case popen e cmd (disk w) of
           (Raised text, disk5) \<Rightarrow>
             ((None, [CHR 0xE2, CHR 0x80, CHR 0x9A, CHR 0xC3, CHR 0xB9, CHR 0xC3, CHR 0xA5] @ '' Error during generation:'' @ [CHR 0x0A] @ text
                 @ [CHR 0x0A, CHR 0x0A] @ ''--- CLI Command ---'' @ [CHR 0x0A] @ cli_command),
              w1\<lparr>disk := disk5\<rparr>)
         | (Exited lines returncode, disk5) \<Rightarrow>
             (let output_lines = map rstrip lines;
                  w2 = w1\<lparr>disk := disk5\<rparr>
              in if returncode = 0 then
                   (if exists disk5 output_file then
                      ((Some (str_path output_file),
                        [CHR 0xE2, CHR 0x80, CHR 0x9A, CHR 0xC3, CHR 0xBA, CHR 0xC3, CHR 0x96] @ '' Success!'' @ [CHR 0x0A, CHR 0x0A]
                        @ ''Saved to: '' @ str_path output_file @ [CHR 0x0A, CHR 0x0A]
                        @ ''Tags: '' @ py_or tags ''(none)'' @ [CHR 0x0A]
                        @ ''Written to .'' @ [CHR 0x5C] @ ''assets'' @ [CHR 0x5C] @ ''tags.txt as: '' @ formatted_tags
                        @ [CHR 0x0A, CHR 0x0A]
                        @ ''--- Console Output (last 20 lines) ---'' @ [CHR 0x0A]
                        @ join [CHR 0x0A] (last20 output_lines) @ [CHR 0x0A, CHR 0x0A]
                        @ ''--- CLI Command ---'' @ [CHR 0x0A] @ cli_command), w2)
                    else
                      ((None,
                        [CHR 0xE2, CHR 0x80, CHR 0x9A, CHR 0xC3, CHR 0xB6, CHR 0xE2, CHR 0x80, CHR 0xA0, CHR 0xC3, CHR 0x94, CHR 0xE2, CHR 0x88, CHR 0x8F, CHR 0xC3, CHR 0xA8] @ '' Process completed but output file not found: ''
                        @ str_path output_file @ [CHR 0x0A, CHR 0x0A]
                        @ ''--- CLI Command ---'' @ [CHR 0x0A] @ cli_command), w2))
                 else
                   ((None,
                     [CHR 0xE2, CHR 0x80, CHR 0x9A, CHR 0xC3, CHR 0xB9, CHR 0xC3, CHR 0xA5] @ '' Generation failed (exit code '' @ str_int returncode
                     @ '')'' @ [CHR 0x0A, CHR 0x0A]
                     @ ''--- Console Output ---'' @ [CHR 0x0A]
                     @ join [CHR 0x0A] output_lines @ [CHR 0x0A, CHR 0x0A]
                     @ ''--- CLI Command ---'' @ [CHR 0x0A] @ cli_command), w2)))"

text \<open>
  \<open>generate_music\<close>: nothing is prepared and nothing is run when the validation fails
  (lines 293 to 296).
\<close>

definition generate_music_gradio ::
  "env \<Rightarrow> world \<Rightarrow> string \<Rightarrow> string \<Rightarrow> string option \<Rightarrow> string option \<Rightarrow> int \<Rightarrow> int
     \<Rightarrow> rat \<Rightarrow> rat \<Rightarrow> string \<Rightarrow> ((string option \<times> string) \<times> world) option" where
  "generate_music_gradio e w mp ver tags lyrics max_length_sec tk temp cfg out =
     (case validate_installation (disk w) (env_root e) mp of
        (False, err) \<Rightarrow> Some ((None, [CHR 0xE2, CHR 0x80, CHR 0x9A, CHR 0xC3, CHR 0xB9, CHR 0xC3, CHR 0xA5] @ '' Installation Error:'' @ [CHR 0x0A] @ err), w)
      | (True, err) \<Rightarrow>
         (case prepare_gradio e w ver tags lyrics max_length_sec tk temp cfg out of
            None \<Rightarrow> None
          | Some (output_file, formatted_tags, cmd, w1) \<Rightarrow>
              Some (run_gradio e w1 tags output_file formatted_tags cmd)))"

section \<open>The desktop shell (heartmula.py, \<open>HeartMuLaApp\<close>)\<close>

text \<open>
  A \<open>QTime\<close> by its hour, minute and second, and \<open>time_to_ms\<close> (lines 88 to 90).
\<close>

type_synonym QTime = "nat \<times> nat \<times> nat"

fun time_to_ms :: "QTime \<Rightarrow> int" where
  "time_to_ms (h, m, s) = int ((h * 3600 + m * 60 + s) * 1000)"

text \<open>A message box: its kind, its title and its text.\<close>

datatype dialog =
    Critical string string
  | Information string string
  | Warning string string

text \<open>
  The window: what its input fields hold, the settings object, the recorded output file
  (\<open>current_output_file\<close>), the command of the process it holds (\<open>process\<close>), whether
  its three buttons are enabled, and the message boxes it has shown. The console and the
  status bar only render text and are left out.
\<close>

record HeartMuLaApp =
  model_path_field :: string
  version_field :: string
  max_length_field :: QTime
  topk_field :: int
  temperature_field :: rat
  cfg_scale_field :: rat
  lyrics_field :: string
  tags_field :: string
  output_dir_field :: string
  auto_open_field :: bool
  settings :: MulaSettings
  current_output_file :: "path option"
  process :: "string list option"
  generate_btn :: bool
  stop_btn :: bool
  play_btn :: bool
  dialogs :: "dialog list"

text \<open>\<open>settings_path()\<close> (lines 49 to 51)\<close>

definition settings_path :: "path \<Rightarrow> path" where
  "settings_path root_dir = child (child (child root_dir ''presets'') ''setsave'') ''mula.json''"

text \<open>\<open>save_settings\<close> (lines 908 to 921)\<close>

definition save_settings :: "path \<Rightarrow> HeartMuLaApp \<Rightarrow> fs \<Rightarrow> HeartMuLaApp \<times> fs" where
  "save_settings root_dir app files =
     (let s = (settings app)\<lparr>
            model_path := JStr (strip (model_path_field app)),
            version := JStr (version_field app),
            max_audio_length_ms := JInt (time_to_ms (max_length_field app)),
            topk := JInt (topk_field app),
            temperature := JFloat (temperature_field app),
            cfg_scale := JFloat (cfg_scale_field app),
            lyrics_text := JStr (lyrics_field app),
            tags_text := JStr (tags_field app),
            output_dir := JStr (strip (output_dir_field app)),
            auto_open_output := JBool (auto_open_field app)\<rparr>
      in (app\<lparr>settings := s\<rparr>, save s (settings_path root_dir) files))"

text \<open>The command (lines 1001 to 1013).\<close>

definition desktop_cmd ::
  "env \<Rightarrow> path \<Rightarrow> path \<Rightarrow> string \<Rightarrow> path \<Rightarrow> path \<Rightarrow> path \<Rightarrow> int \<Rightarrow> int \<Rightarrow> rat \<Rightarrow> rat
     \<Rightarrow> string list" where
  "desktop_cmd e script model_dir ver lyrics_file tags_file output_file ms tk temp cfg =
     [python_exe e,
      str_path script,
      ''--model_path='' @ str_path model_dir,
      ''--version='' @ ver,
      ''--lyrics='' @ str_path lyrics_file,
      ''--tags='' @ str_path tags_file,
      ''--save_path='' @ str_path output_file,
      ''--max_audio_length_ms='' @ str_int ms,
      ''--topk='' @ str_int tk,
      ''--temperature='' @ str_float e temp,
      ''--cfg_scale='' @ str_float e cfg]"

text \<open>
  \<open>generate_music\<close> (lines 954 to 1036): the window and the world once the process is
  started, or unchanged but for the message box when the validation fails. \<open>None\<close> when
  the loop that looks for a free file name does not end.
\<close>

definition generate_music :: "env \<Rightarrow> world \<Rightarrow> HeartMuLaApp \<Rightarrow> (HeartMuLaApp \<times> world) option" where
  "generate_music e w app =
     (case validate_installation (disk w) (env_root e) (model_path_field app) of
        (False, err) \<Rightarrow>
          Some (app\<lparr>dialogs := dialogs app @ [Critical ''Installation Error'' err]\<rparr>, w)
      | (True, err) \<Rightarrow>
         (case save_settings (env_root e) app (disk w) of (app1, disk0) \<Rightarrow>
          let model_dir = resolve (env_root e) (model_path_field app1);
              out_dir = resolve_output_dir (env_root e) (output_dir_field app1);
              disk1 = mkdir_parents out_dir disk0
          in case unique_output_file disk1 out_dir (env_now e) of
               None \<Rightarrow> None
             | Some output_file \<Rightarrow>
                (let temp_dir = child (child (child (env_root e) ''presets'') ''setsave'')
                                  ''_mula_tmp'';
                     disk2 = mkdir_parents temp_dir disk1;
                     lyrics_file = child temp_dir ''lyrics.txt'';
                     tags_file = child temp_dir ''tags.txt'';
                     disk3 = write_text lyrics_file (lyrics_field app1 @ [CHR 0x0A]) disk2;
                     disk4 = write_text tags_file (strip (tags_field app1) @ [CHR 0x0A]) disk3;
                     cmd = desktop_cmd e (script_path (env_root e)) model_dir
                             (version_field app1) lyrics_file tags_file output_file
                             (time_to_ms (max_length_field app1)) (topk_field app1)
                             (temperature_field app1) (cfg_scale_field app1)
                 in Some (app1\<lparr>process := Some cmd,
                                 current_output_file := Some output_file,
                                 generate_btn := False,
                                 stop_btn := True\<rparr>,
                          w\<lparr>disk := disk4, spawned := spawned w @ [cmd]\<rparr>))))"




section \<open>An example installation\<close>

text \<open>
  A complete installation below \<open>/app\<close> with its model directory at \<open>models2\<close>, at
  noon of the first of January 2025, and an external script that fails with exit code 1
  whatever its command line. The two floats of the example are written \<open>1.0\<close> and
  \<open>1.5\<close>.
\<close>

definition ex_env :: env where
  "ex_env = \<lparr>env_root = Path True [''app''],
      env_now = \<lparr>year = 2025, month = 1, day = 1, hour = 12, minute = 0, second = 0\<rparr>,
      python_exe = ''python'',
      str_float = (\<lambda>x. if x = 1 then ''1.0'' else ''1.5''),
      popen = (\<lambda>cmd d. (Exited [''failed''] 1, d))\<rparr>"

definition ex_world :: world where
  "ex_world = \<lparr>disk = [Path True [''app'', ''models2''] \<mapsto> Dir,
           Path True [''app'', ''models2'', ''HeartCodec-oss''] \<mapsto> Dir,
           Path True [''app'', ''models2'', ''HeartMuLa-oss-3B''] \<mapsto> Dir,
           Path True [''app'', ''models2'', ''gen_config.json''] \<mapsto> Text ''{}'',
           Path True [''app'', ''models2'', ''tokenizer.json''] \<mapsto> Text ''{}'',
           Path True [''app'', ''examples'', ''run_music_generation.py''] \<mapsto> Text []],
      spawned = [], opened = []\<rparr>"


section \<open>Facts about the text operations\<close>







lemma split_ne [simp]: "split sep s \<noteq> []"
  by (induction s) auto







lemma rstrip_Nil [simp]: "rstrip [] = []"
  by (simp add: rstrip_def)

lemma lstrip_Nil [simp]: "lstrip [] = []"
  by (simp add: lstrip_def)

lemma rstrip_eq_Nil: "(rstrip s = []) = (\<forall>c\<in>set s. is_space c)"
  by (simp add: rstrip_def dropWhile_eq_Nil_conv)







lemma strip_eq_Nil: "(strip s = []) = (\<forall>c\<in>set s. is_space c)"
proof -
  have "(\<forall>c\<in>set (lstrip s). is_space c) = (lstrip s = [])"
  proof (cases "lstrip s = []")
    case True then show ?thesis by simp
  next
    case False
    then have "\<not> is_space (hd (lstrip s))"
      unfolding lstrip_def by (rule hd_dropWhile)
    moreover have "hd (lstrip s) \<in> set (lstrip s)" using False by simp
    ultimately show ?thesis using False by blast
  qed
  then have "(strip s = []) = (lstrip s = [])"
    by (simp add: strip_def rstrip_eq_Nil)
  then show ?thesis by (simp add: lstrip_def dropWhile_eq_Nil_conv)
qed


lemma split_no_sep: "sep \<notin> set s \<Longrightarrow> split sep s = [s]"
  by (induction s) auto












section \<open>Facts about the settings\<close>

lemma bind_Inr [simp]: "bind (Inr x) f = f x"
  by (simp add: bind_def)

lemma bind_Inl [simp]: "bind (Inl e) f = Inl e"
  by (simp add: bind_def)












lemma load_absent: "files p = None \<Longrightarrow> load files p = Inr default_settings"
  by (simp add: load_def exists_def)

lemma load_gradio_returns: "\<exists>s. load_gradio files p = Inr s"
  by (simp add: load_gradio_def split: sum.split)

lemma load_gradio_defaults:
  assumes "files p = None \<or> files p = Some Dir \<or> (\<exists>t. files p = Some (Text t))"
  shows "load_gradio files p = Inr default_settings_gradio"
  using assms by (auto simp: load_gradio_def load_body_gradio_def exists_def read_json_def)

section \<open>Claims about the settings\<close>

text \<open>
  C1: a settings file that is absent or does not parse makes \<open>load\<close> return the
  defaults, without an exception, in both shells. The browser shell does so
  (\<open>load_gradio_defaults\<close>, \<open>load_gradio_returns\<close>), and the desktop shell does so for an
  absent file (\<open>load_absent\<close>). For a file that is there and is not JSON the desktop shell
  does not: its handler names \<open>sMulaSettings\<close>, which does not exist, and \<open>load\<close> raises
  \<open>NameError\<close>. The theorem evaluates the desktop \<open>load\<close> on a settings file holding the
  single character \<open>{\<close>.
\<close>

theorem load_invalid_json_raises:
  "load [Path True [''app'', ''mula.json''] \<mapsto> Text ''{''] (Path True [''app'', ''mula.json''])
     = Inl NameError"
  by (simp add: load_def load_body_def exists_def read_json_def)




section \<open>Facts about the presets\<close>

lemma mkdir_parents_keeps: "files q \<noteq> None \<Longrightarrow> mkdir_parents p files q = files q"
  by (simp add: mkdir_parents_def)









section \<open>Claims about the presets\<close>



lemma default_presets_genres:
  "\<exists>t ps gs. default_presets = JObject [(''version'', JInt 1), (''genres'', JList
     (genre ''EDM'' (preset (''House '' @ [CHR 0xE2, CHR 0x80, CHR 0x9A, CHR 0xC3, CHR 0x84, CHR 0xC3, CHR 0xAC] @ '' Club'') t # ps) # gs))]"
  unfolding default_presets_def by blast

text \<open>
  C5: on the built-in catalog, \<open>get_presets_for_genre("EDM")\<close> returns a list that is
  not empty and whose first entry has the name \<open>House\<close>, en dash, \<open>Club\<close>. The list is
  not empty, but the name stored in the source is not that one: between \<open>House\<close> and
  \<open>Club\<close> it has the seven bytes of U+201A, U+00C4, U+00EC, the en dash (bytes E2 80 93)
  read in a wrong encoding. The theorem evaluates the call on the manager that \<open>load\<close>
  leaves when there is no preset file.
\<close>

theorem edm_first_preset_name:
  "case get_presets_for_genre
          (fst (snd (load_presets default_presets
                       (init (Path True [''app'', ''mulapresets.json''])) Map.empty))) ''EDM'' of
     Inr (JList (p # ps)) \<Rightarrow>
       py_getitem p ''name''
         = Inr (JStr (''House '' @ [CHR 0xE2, CHR 0x80, CHR 0x9A, CHR 0xC3, CHR 0x84, CHR 0xC3, CHR 0xAC]
                  @ '' Club''))
       \<and> py_getitem p ''name'' \<noteq> Inr (JStr (''House '' @ [CHR 0xE2, CHR 0x80, CHR 0x93] @ '' Club''))
   | _ \<Rightarrow> False"
proof -
  let ?p = "Path True [''app'', ''mulapresets.json'']"
  have l: "fst (snd (load_presets default_presets (init ?p) Map.empty))
             = (init ?p)\<lparr>data := default_presets\<rparr>"
    by (simp add: load_presets_def exists_def Let_def)
  obtain t ps gs where d: "default_presets = JObject [(''version'', JInt 1), (''genres'', JList
     (genre ''EDM'' (preset (''House '' @ [CHR 0xE2, CHR 0x80, CHR 0x9A, CHR 0xC3, CHR 0x84, CHR 0xC3, CHR 0xAC] @ '' Club'') t # ps) # gs))]"
    using default_presets_genres by blast
  show ?thesis
    unfolding l
    by (simp add: d get_presets_for_genre_def dict_get_def genre_def preset_def)
qed

section \<open>Facts about the name of the output file\<close>

lemma digit_char_inj:
  "a < 10 \<Longrightarrow> b < 10 \<Longrightarrow> digit_char a = digit_char b \<Longrightarrow> a = b"
proof -
  assume a: "a < 10" and b: "b < 10" and e: "digit_char a = digit_char b"
  have d: "distinct ''0123456789''" by simp
  have l: "length ''0123456789'' = 10" by simp
  from e have "''0123456789'' ! a = ''0123456789'' ! b" by (simp add: digit_char_def)
  with d a b l show "a = b" by (simp add: nth_eq_iff_index_eq)
qed

lemma digit_char_digit: "d < 10 \<Longrightarrow> digit_char d \<in> set ''0123456789''"
proof -
  assume "d < 10"
  then have "d < length ''0123456789''" by simp
  then have "''0123456789'' ! d \<in> set ''0123456789''" by (rule nth_mem)
  then show ?thesis by (simp only: digit_char_def)
qed

lemma str_nat_ne: "str_nat n \<noteq> []"
  by (subst str_nat.simps) simp

lemma str_nat_digits: "set (str_nat n) \<subseteq> set ''0123456789''"
proof (induction n rule: str_nat.induct)
  case (1 n)
  show ?case
  proof (cases "n < 10")
    case True
    then show ?thesis using digit_char_digit[of n] by (subst str_nat.simps) simp
  next
    case False
    have "n mod 10 < 10" by simp
    then have "digit_char (n mod 10) \<in> set ''0123456789''" by (rule digit_char_digit)
    then show ?thesis using False 1 by (subst str_nat.simps) simp
  qed
qed

lemma str_nat_inj: "str_nat m = str_nat n \<Longrightarrow> m = n"
proof (induction m arbitrary: n rule: str_nat.induct)
  case (1 m)
  show ?case
  proof (cases "m < 10")
    case m: True
    show ?thesis
    proof (cases "n < 10")
      case True
      from 1(2) m True have "digit_char m = digit_char n"
        by (simp add: str_nat.simps[of m] str_nat.simps[of n])
      then show ?thesis using m True by (rule digit_char_inj[rotated 2])
    next
      case False
      from 1(2) m False have "[digit_char m] = str_nat (n div 10) @ [digit_char (n mod 10)]"
        by (simp add: str_nat.simps[of m] str_nat.simps[of n])
      then have "str_nat (n div 10) = []" by simp
      then show ?thesis using str_nat_ne by simp
    qed
  next
    case m: False
    show ?thesis
    proof (cases "n < 10")
      case True
      from 1(2) m True have "str_nat (m div 10) @ [digit_char (m mod 10)] = [digit_char n]"
        by (simp add: str_nat.simps[of m] str_nat.simps[of n])
      then have "str_nat (m div 10) = []" by simp
      then show ?thesis using str_nat_ne by simp
    next
      case False
      from 1(2) m False
      have "str_nat (m div 10) @ [digit_char (m mod 10)]
          = str_nat (n div 10) @ [digit_char (n mod 10)]"
        by (simp add: str_nat.simps[of m] str_nat.simps[of n])
      then have a: "str_nat (m div 10) = str_nat (n div 10)"
        and b: "digit_char (m mod 10) = digit_char (n mod 10)" by simp_all
      from 1(1)[OF m a] have "m div 10 = n div 10" .
      moreover from b have "m mod 10 = n mod 10" by (intro digit_char_inj) simp_all
      ultimately show ?thesis by (metis div_mult_mod_eq)
    qed
  qed
qed

lemma str_int_inj: "0 \<le> j \<Longrightarrow> 0 \<le> k \<Longrightarrow> str_int j = str_int k \<Longrightarrow> j = k"
  using str_nat_inj[of "nat j" "nat k"] by (simp add: str_int_def)

lemma str_int_no_slash: "CHR ''/'' \<notin> set (str_int k)"
  using str_nat_digits[of "nat k"] str_nat_digits[of "nat (- k)"]
  by (auto simp: str_int_def)

lemma zero_pad_no_slash: "CHR ''/'' \<notin> set (zero_pad w n)"
  using str_nat_digits[of n] by (auto simp: zero_pad_def)

lemma strftime_no_slash: "CHR ''/'' \<notin> set (strftime t)"
  by (simp add: strftime_def zero_pad_no_slash)

lemma child_simple:
  assumes "CHR ''/'' \<notin> set nm" and "nm \<noteq> []" and "nm \<noteq> ''.''"
  shows "child p nm = Path (is_absolute p) (parts p @ [nm])"
proof -
  from assms(1) have s: "split (CHR ''/'') nm = [nm]" by (rule split_no_sep)
  from assms(1,2) have "hd nm \<noteq> CHR ''/''" using hd_in_set by metis
  then show ?thesis using assms s by (simp add: child_def path_of_def path_join_def)
qed

lemma child_plain:
  "CHR ''/'' \<notin> set ts \<Longrightarrow> child p (plain_name ts) = Path (is_absolute p) (parts p @ [plain_name ts])"
  by (rule child_simple) (simp_all add: plain_name_def)

lemma child_numbered:
  "CHR ''/'' \<notin> set ts \<Longrightarrow>
   child p (numbered_name ts k) = Path (is_absolute p) (parts p @ [numbered_name ts k])"
  by (rule child_simple) (simp_all add: numbered_name_def str_int_no_slash)

lemma numbered_inj:
  assumes "CHR ''/'' \<notin> set ts" and "0 \<le> j" and "0 \<le> k"
    and "child p (numbered_name ts j) = child p (numbered_name ts k)"
  shows "j = k"
proof -
  from assms(1,4) have "numbered_name ts j = numbered_name ts k"
    by (simp add: child_numbered)
  then have "str_int j = str_int k" by (simp add: numbered_name_def)
  with assms(2,3) show ?thesis by (rule str_int_inj)
qed

lemma probe_finds:
  assumes "c \<le> n"
    and "\<forall>j. c \<le> j \<and> j < n \<longrightarrow> exists files (child dir (numbered_name ts j))"
    and "\<not> exists files (child dir (numbered_name ts n))"
  shows "probe files dir ts (child dir (numbered_name ts c)) (c + 1)
           = Some (child dir (numbered_name ts n))"
  using assms
proof (induction "nat (n - c)" arbitrary: c)
  case 0
  then have "c = n" by simp
  then show ?case using 0 by (subst probe.simps) simp
next
  case (Suc m)
  then have lt: "c < n" by simp
  then have ex: "exists files (child dir (numbered_name ts c))" using Suc.prems by simp
  have "probe files dir ts (child dir (numbered_name ts (c + 1))) (c + 1 + 1)
          = Some (child dir (numbered_name ts n))"
  proof (rule Suc.hyps(1))
    show "m = nat (n - (c + 1))" using Suc.hyps(2) by simp
    show "c + 1 \<le> n" using lt by simp
    show "\<forall>j. c + 1 \<le> j \<and> j < n \<longrightarrow> exists files (child dir (numbered_name ts j))"
      using Suc.prems by simp
    show "\<not> exists files (child dir (numbered_name ts n))" using Suc.prems by simp
  qed
  then show ?case using ex by (subst probe.simps) simp
qed

lemma free_index:
  assumes "finite (dom files)" and "CHR ''/'' \<notin> set ts"
  shows "\<exists>n\<ge>1. \<not> exists files (child dir (numbered_name ts n))
           \<and> (\<forall>j. 1 \<le> j \<and> j < n \<longrightarrow> exists files (child dir (numbered_name ts j)))"
proof -
  let ?N = "\<lambda>j::int. child dir (numbered_name ts j)"
  let ?f = "\<lambda>m::nat. ?N (1 + int m)"
  have inj: "inj ?f"
  proof (rule injI)
    fix a b assume "?f a = ?f b"
    with assms(2) have "1 + int a = 1 + int b" by (intro numbered_inj[of ts _ _ dir]) simp_all
    then show "a = b" by simp
  qed
  have "\<exists>m. \<not> exists files (?f m)"
  proof (rule ccontr)
    assume "\<not> (\<exists>m. \<not> exists files (?f m))"
    then have "range ?f \<subseteq> dom files" by (auto simp: exists_def)
    then have "finite (range ?f)" using assms(1) by (rule finite_subset)
    then have "finite (UNIV :: nat set)" using inj by (rule finite_imageD)
    then show False by simp
  qed
  then obtain m where m: "\<not> exists files (?f m)" ..
  define m0 where "m0 = (LEAST m. \<not> exists files (?f m))"
  have free: "\<not> exists files (?f m0)" unfolding m0_def using m by (rule LeastI)
  have below: "\<And>i. i < m0 \<Longrightarrow> exists files (?f i)"
    unfolding m0_def using not_less_Least by blast
  have "\<forall>j. 1 \<le> j \<and> j < 1 + int m0 \<longrightarrow> exists files (?N j)"
  proof (intro allI impI)
    fix j :: int assume j: "1 \<le> j \<and> j < 1 + int m0"
    then have "nat (j - 1) < m0" by linarith
    then have "exists files (?f (nat (j - 1)))" by (rule below)
    moreover from j have "1 + int (nat (j - 1)) = j" by simp
    ultimately show "exists files (?N j)" by simp
  qed
  with free show ?thesis by (intro exI[of _ "1 + int m0"]) simp
qed

lemma unique_output_file_total:
  assumes "finite (dom files)"
  shows "\<exists>f. unique_output_file files dir now = Some f \<and> \<not> exists files f
     \<and> (\<not> exists files (child dir (plain_name (strftime now)))
          \<longrightarrow> f = child dir (plain_name (strftime now)))
     \<and> (exists files (child dir (plain_name (strftime now)))
          \<longrightarrow> (\<exists>k\<ge>1. f = child dir (numbered_name (strftime now) k)
                \<and> (\<forall>j. 1 \<le> j \<and> j < k
                      \<longrightarrow> exists files (child dir (numbered_name (strftime now) j)))))"
proof (cases "exists files (child dir (plain_name (strftime now)))")
  case False
  then have "unique_output_file files dir now = Some (child dir (plain_name (strftime now)))"
    unfolding unique_output_file_def Let_def by (subst probe.simps) simp
  then show ?thesis using False by simp
next
  case True
  from free_index[where ts = "strftime now" and dir = dir, OF assms strftime_no_slash]
  obtain n where n: "1 \<le> n" "\<not> exists files (child dir (numbered_name (strftime now) n))"
    "\<forall>j. 1 \<le> j \<and> j < n \<longrightarrow> exists files (child dir (numbered_name (strftime now) j))"
    by blast
  from probe_finds[OF n(1) n(3) n(2)]
  have "probe files dir (strftime now) (child dir (numbered_name (strftime now) 1)) (1 + 1)
          = Some (child dir (numbered_name (strftime now) n))" .
  then have "unique_output_file files dir now = Some (child dir (numbered_name (strftime now) n))"
    unfolding unique_output_file_def Let_def using True by (subst probe.simps) simp
  then show ?thesis using True n by auto
qed

section \<open>Claims about the name of the output file\<close>

text \<open>
  C6: for every state of the output directory (a file system holds finitely many paths)
  and every timestamp, the loop ends with a path at which nothing exists. It is
  \<open>heartmula_<timestamp>.mp3\<close> when nothing exists there, and otherwise
  \<open>heartmula_<timestamp>_k.mp3\<close> for the first \<open>k\<close> from 1 on at which nothing exists.
  The same lines compute the name in both shells.
\<close>

theorem unique_output_file_free:
  assumes "finite (dom files)"
  shows "\<exists>f. unique_output_file files dir now = Some f \<and> \<not> exists files f
     \<and> (\<not> exists files (child dir (plain_name (strftime now)))
          \<longrightarrow> f = child dir (plain_name (strftime now)))
     \<and> (exists files (child dir (plain_name (strftime now)))
          \<longrightarrow> (\<exists>k\<ge>1. f = child dir (numbered_name (strftime now) k)
                \<and> (\<forall>j. 1 \<le> j \<and> j < k
                      \<longrightarrow> exists files (child dir (numbered_name (strftime now) j)))))"
  using assms by (rule unique_output_file_total)

lemma strftime_example:
  "strftime \<lparr>year = 2025, month = 1, day = 1, hour = 12, minute = 0, second = 0\<rparr>
     = ''20250101_120000''"
  by (simp add: strftime_def zero_pad_def str_nat.simps digit_char_def)

theorem unique_output_file_free_witness:
  "finite (dom [Path True [''out'', ''heartmula_20250101_120000.mp3''] \<mapsto> Text []])
   \<and> unique_output_file [Path True [''out'', ''heartmula_20250101_120000.mp3''] \<mapsto> Text []]
         (Path True [''out''])
         \<lparr>year = 2025, month = 1, day = 1, hour = 12, minute = 0, second = 0\<rparr>
       = Some (Path True [''out'', ''heartmula_20250101_120000_1.mp3''])"
proof -
  let ?files = "[Path True [''out'', ''heartmula_20250101_120000.mp3''] \<mapsto> Text []]"
  let ?dir = "Path True [''out'']"
  let ?now = "\<lparr>year = 2025, month = 1, day = 1, hour = 12, minute = 0, second = 0\<rparr>"
  have fin: "finite (dom ?files)" by simp
  have ns: "CHR ''/'' \<notin> set ''20250101_120000''" by simp
  have plain: "child ?dir (plain_name (strftime ?now))
                 = Path True [''out'', ''heartmula_20250101_120000.mp3'']"
    unfolding strftime_example using child_plain[OF ns, of ?dir] by (simp add: plain_name_def)
  have numbered: "child ?dir (numbered_name (strftime ?now) k)
                 = Path True [''out'', ''heartmula_20250101_120000_'' @ str_int k @ ''.mp3'']"
    for k
    unfolding strftime_example using child_numbered[OF ns, of ?dir k]
    by (simp add: numbered_name_def)
  have one: "str_int 1 = ''1''" by (simp add: str_int_def str_nat.simps digit_char_def)
  have ex: "exists ?files (child ?dir (plain_name (strftime ?now)))"
    unfolding plain by (simp add: exists_def)
  have free1: "\<not> exists ?files (child ?dir (numbered_name (strftime ?now) 1))"
    unfolding numbered one by (simp add: exists_def)
  from unique_output_file_free[OF fin, of ?dir ?now] ex
  obtain f k where f: "unique_output_file ?files ?dir ?now = Some f" and k: "1 \<le> k"
    and fk: "f = child ?dir (numbered_name (strftime ?now) k)"
    and below: "\<forall>j. 1 \<le> j \<and> j < k
                  \<longrightarrow> exists ?files (child ?dir (numbered_name (strftime ?now) j))"
    by blast
  have "k = 1"
  proof (rule ccontr)
    assume "k \<noteq> 1"
    with k have "1 \<le> (1::int) \<and> 1 < k" by simp
    with below have "exists ?files (child ?dir (numbered_name (strftime ?now) 1))" by blast
    with free1 show False by simp
  qed
  with fk have "f = child ?dir (numbered_name (strftime ?now) 1)" by (simp only:)
  then have "f = Path True [''out'', ''heartmula_20250101_120000_'' @ ''1'' @ ''.mp3'']"
    unfolding numbered one .
  then have "f = Path True [''out'', ''heartmula_20250101_120000_1.mp3'']" by simp
  with f have "unique_output_file ?files ?dir ?now
      = Some (Path True [''out'', ''heartmula_20250101_120000_1.mp3''])"
    by (simp only:)
  with fin show ?thesis by (intro conjI)
qed

section \<open>Facts about the validation\<close>

lemma contains_prefix: "contains sub (sub @ b)"
proof (cases "sub @ b")
  case Nil
  then show ?thesis by simp
next
  case (Cons c cs)
  have "prefix sub (sub @ b)" by simp
  then have "prefix sub (c # cs)" by (simp only: Cons)
  then show ?thesis by (simp add: Cons)
qed

lemma contains_append: "contains sub (a @ sub @ b)"
  by (induction a) (simp_all add: contains_prefix)

lemma join_member: "x \<in> set xs \<Longrightarrow> \<exists>a b. join sep xs = a @ x @ b"
proof (induction sep xs rule: join.induct)
  case (1 sep)
  then show ?case by simp
next
  case (2 sep y)
  then have "join sep [y] = [] @ x @ []" by simp
  then show ?case by blast
next
  case (3 sep y z zs)
  show ?case
  proof (cases "x = y")
    case True
    then have "join sep (y # z # zs) = [] @ x @ (sep @ join sep (z # zs))" by simp
    then show ?thesis by blast
  next
    case False
    then have "x \<in> set (z # zs)" using 3(2) by simp
    from 3(1)[OF this] obtain a b where "join sep (z # zs) = a @ x @ b" by blast
    then have "join sep (y # z # zs) = (y @ sep @ a) @ x @ b" by simp
    then show ?thesis by blast
  qed
qed

lemma contains_join: "x \<in> set xs \<Longrightarrow> contains x (h @ join sep xs)"
proof -
  assume "x \<in> set xs"
  then obtain a b where "join sep xs = a @ x @ b" using join_member by blast
  then have "h @ join sep xs = (h @ a) @ x @ b" by simp
  then show ?thesis using contains_append[of x "h @ a" b] by simp
qed

lemma validate_installation_missing_files:
  assumes "exists files (resolve r mp)"
    and "\<exists>p\<in>set (required (resolve r mp)). \<not> exists files p"
  shows "validate_installation files r mp
           = (False, ''Missing model files:'' @ [CHR 0x0A] @ join [CHR 0x0A]
                (map str_path (filter (\<lambda>p. \<not> exists files p) (required (resolve r mp)))))"
proof -
  from assms(2) have "filter (\<lambda>p. \<not> exists files p) (required (resolve r mp)) \<noteq> []"
    by (simp add: filter_empty_conv)
  then show ?thesis using assms(1) by (simp add: validate_installation_def Let_def)
qed

section \<open>Claims about the validation\<close>

text \<open>
  C8: when the model directory exists and some of its four required sub-paths do not,
  \<open>validate_installation\<close> fails, and its message contains the path of every sub-path
  that is missing. \<open>generate_music\<close> then returns at once in both shells: the world,
  and with it the list of started commands, is as it was, the browser shell returns no
  audio path, and the desktop shell only shows the message box.
\<close>

theorem validate_installation_missing:
  assumes "exists (disk w) (resolve (env_root e) mp)"
    and "\<exists>p\<in>set (required (resolve (env_root e) mp)). \<not> exists (disk w) p"
  shows "fst (validate_installation (disk w) (env_root e) mp) = False
     \<and> (\<forall>p\<in>set (required (resolve (env_root e) mp)). \<not> exists (disk w) p
           \<longrightarrow> contains (str_path p) (snd (validate_installation (disk w) (env_root e) mp)))
     \<and> (\<exists>msg. generate_music_gradio e w mp ver tags lyrics len tk temp cfg out
                 = Some ((None, msg), w))
     \<and> (model_path_field app = mp
           \<longrightarrow> (\<exists>msg. generate_music e w app
                        = Some (app\<lparr>dialogs := dialogs app @ [Critical ''Installation Error'' msg]\<rparr>,
                                w)))"
proof -
  let ?missing = "map str_path (filter (\<lambda>p. \<not> exists (disk w) p)
                    (required (resolve (env_root e) mp)))"
  let ?msg = "''Missing model files:'' @ [CHR 0x0A] @ join [CHR 0x0A] ?missing"
  have v: "validate_installation (disk w) (env_root e) mp = (False, ?msg)"
    using assms by (rule validate_installation_missing_files)
  have "contains (str_path p) ?msg"
    if "p \<in> set (required (resolve (env_root e) mp))" and "\<not> exists (disk w) p" for p
  proof -
    from that have "str_path p \<in> set ?missing" by simp
    then have "contains (str_path p) ((''Missing model files:'' @ [CHR 0x0A]) @ join [CHR 0x0A] ?missing)"
      by (rule contains_join)
    then show ?thesis by simp
  qed
  moreover have "\<exists>msg. generate_music_gradio e w mp ver tags lyrics len tk temp cfg out
                 = Some ((None, msg), w)"
    by (simp add: generate_music_gradio_def v)
  moreover have "model_path_field app = mp
           \<longrightarrow> (\<exists>msg. generate_music e w app
                        = Some (app\<lparr>dialogs := dialogs app @ [Critical ''Installation Error'' msg]\<rparr>,
                                w))"
    by (auto simp: generate_music_def v)
  ultimately show ?thesis by (simp add: v)
qed

theorem validate_installation_missing_witness:
  "exists [Path True [''app'', ''ckpt''] \<mapsto> Dir,
           Path True [''app'', ''ckpt'', ''HeartCodec-oss''] \<mapsto> Dir,
           Path True [''app'', ''ckpt'', ''HeartMuLa-oss-3B''] \<mapsto> Dir,
           Path True [''app'', ''ckpt'', ''gen_config.json''] \<mapsto> Text ''{}'']
          (resolve (Path True [''app'']) ''ckpt'')
   \<and> \<not> exists [Path True [''app'', ''ckpt''] \<mapsto> Dir,
           Path True [''app'', ''ckpt'', ''HeartCodec-oss''] \<mapsto> Dir,
           Path True [''app'', ''ckpt'', ''HeartMuLa-oss-3B''] \<mapsto> Dir,
           Path True [''app'', ''ckpt'', ''gen_config.json''] \<mapsto> Text ''{}'']
          (child (resolve (Path True [''app'']) ''ckpt'') ''tokenizer.json'')
   \<and> fst (validate_installation
          [Path True [''app'', ''ckpt''] \<mapsto> Dir,
           Path True [''app'', ''ckpt'', ''HeartCodec-oss''] \<mapsto> Dir,
           Path True [''app'', ''ckpt'', ''HeartMuLa-oss-3B''] \<mapsto> Dir,
           Path True [''app'', ''ckpt'', ''gen_config.json''] \<mapsto> Text ''{}'']
          (Path True [''app'']) ''ckpt'') = False
   \<and> contains ''/app/ckpt/tokenizer.json''
        (snd (validate_installation
          [Path True [''app'', ''ckpt''] \<mapsto> Dir,
           Path True [''app'', ''ckpt'', ''HeartCodec-oss''] \<mapsto> Dir,
           Path True [''app'', ''ckpt'', ''HeartMuLa-oss-3B''] \<mapsto> Dir,
           Path True [''app'', ''ckpt'', ''gen_config.json''] \<mapsto> Text ''{}'']
          (Path True [''app'']) ''ckpt''))"
proof -
  let ?files = "[Path True [''app'', ''ckpt''] \<mapsto> Dir,
           Path True [''app'', ''ckpt'', ''HeartCodec-oss''] \<mapsto> Dir,
           Path True [''app'', ''ckpt'', ''HeartMuLa-oss-3B''] \<mapsto> Dir,
           Path True [''app'', ''ckpt'', ''gen_config.json''] \<mapsto> Text ''{}'']"
  let ?r = "Path True [''app'']"
  define w :: world where "w = \<lparr>disk = ?files, spawned = [], opened = []\<rparr>"
  define e :: env where "e = \<lparr>env_root = ?r,
      env_now = \<lparr>year = 2025, month = 1, day = 1, hour = 12, minute = 0, second = 0\<rparr>,
      python_exe = ''python'', str_float = (\<lambda>x. ''1.0''),
      popen = (\<lambda>cmd d. (Exited [] 0, d))\<rparr>"
  have dw: "disk w = ?files" and re: "env_root e = ?r" by (simp_all add: w_def e_def)
  have r: "resolve ?r ''ckpt'' = Path True [''app'', ''ckpt'']"
    by (simp add: resolve_def strip_def lstrip_def rstrip_def is_space_def path_of_def
        path_join_def)
  have t: "child (Path True [''app'', ''ckpt'']) ''tokenizer.json''
             = Path True [''app'', ''ckpt'', ''tokenizer.json'']"
    by (simp add: child_def path_of_def path_join_def)
  have h1: "exists ?files (resolve ?r ''ckpt'')" unfolding r by (simp add: exists_def)
  have n: "\<not> exists ?files (child (resolve ?r ''ckpt'') ''tokenizer.json'')"
    unfolding r t by (simp add: exists_def)
  have m: "child (resolve ?r ''ckpt'') ''tokenizer.json'' \<in> set (required (resolve ?r ''ckpt''))"
    by (simp add: required_def)
  from m n have h2: "\<exists>p\<in>set (required (resolve ?r ''ckpt'')). \<not> exists ?files p" by blast
  from validate_installation_missing[of w e "''ckpt''", unfolded dw re, OF h1 h2]
  have f: "fst (validate_installation ?files ?r ''ckpt'') = False"
    and c: "\<forall>p\<in>set (required (resolve ?r ''ckpt'')). \<not> exists ?files p
              \<longrightarrow> contains (str_path p) (snd (validate_installation ?files ?r ''ckpt''))"
    by blast+
  from c m n have "contains (str_path (child (resolve ?r ''ckpt'') ''tokenizer.json''))
      (snd (validate_installation ?files ?r ''ckpt''))" by blast
  moreover have "str_path (child (resolve ?r ''ckpt'') ''tokenizer.json'')
      = ''/app/ckpt/tokenizer.json''"
    unfolding r t by (simp add: str_path_def)
  ultimately have "contains ''/app/ckpt/tokenizer.json''
      (snd (validate_installation ?files ?r ''ckpt''))" by (simp only:)
  with h1 n f show ?thesis by (intro conjI)
qed

section \<open>Facts about the end of a generation\<close>




lemma run_gradio_raised:
  assumes "popen e cmd (disk w) = (Raised t, d)"
  shows "fst (fst (run_gradio e w tags f ft cmd)) = None"
  using assms by (simp add: run_gradio_def Let_def)




section \<open>Claims about the end of a generation\<close>


section \<open>Facts about the example installation\<close>

lemma ex_resolve: "resolve (Path True [''app'']) ''models2'' = Path True [''app'', ''models2'']"
  by (simp add: resolve_def strip_def lstrip_def rstrip_def is_space_def path_of_def path_join_def)


lemma ex_required:
  "required (Path True [''app'', ''models2''])
     = [Path True [''app'', ''models2'', ''HeartCodec-oss''],
        Path True [''app'', ''models2'', ''HeartMuLa-oss-3B''],
        Path True [''app'', ''models2'', ''gen_config.json''],
        Path True [''app'', ''models2'', ''tokenizer.json'']]"
  by (simp add: required_def child_simple)

lemma ex_script:
  "script_path (Path True [''app''])
     = Path True [''app'', ''examples'', ''run_music_generation.py'']"
  by (simp add: script_path_def child_simple)

lemma ex_validate:
  "validate_installation (disk ex_world) (env_root ex_env) ''models2'' = (True, [])"
proof -
  have d: "disk ex_world = [Path True [''app'', ''models2''] \<mapsto> Dir,
           Path True [''app'', ''models2'', ''HeartCodec-oss''] \<mapsto> Dir,
           Path True [''app'', ''models2'', ''HeartMuLa-oss-3B''] \<mapsto> Dir,
           Path True [''app'', ''models2'', ''gen_config.json''] \<mapsto> Text ''{}'',
           Path True [''app'', ''models2'', ''tokenizer.json''] \<mapsto> Text ''{}'',
           Path True [''app'', ''examples'', ''run_music_generation.py''] \<mapsto> Text []]"
    by (simp add: ex_world_def)
  have e: "env_root ex_env = Path True [''app'']" by (simp add: ex_env_def)
  show ?thesis
    unfolding validate_installation_def Let_def e ex_resolve ex_required ex_script d
    by (simp add: exists_def)
qed
lemma ex_out_dir: "resolve_output_dir (Path True [''app'']) ''output'' = Path True [''app'', ''output'']"
  by (simp add: resolve_output_dir_def strip_def lstrip_def rstrip_def is_space_def path_of_def
      path_join_def)

lemma ex_ancestors: "ancestors (Path True [''app'', ''output''])
  = [Path True [], Path True [''app''], Path True [''app'', ''output'']]"
  by (simp add: ancestors_def)

lemma ex_unique:
  "unique_output_file (mkdir_parents (Path True [''app'', ''output'']) (disk ex_world))
     (Path True [''app'', ''output''])
     \<lparr>year = 2025, month = 1, day = 1, hour = 12, minute = 0, second = 0\<rparr>
   = Some (Path True [''app'', ''output'', ''heartmula_20250101_120000.mp3''])"
proof -
  have ns: "CHR ''/'' \<notin> set ''20250101_120000''" by simp
  have plain: "child (Path True [''app'', ''output''])
        (plain_name (strftime \<lparr>year = 2025, month = 1, day = 1, hour = 12, minute = 0, second = 0\<rparr>))
      = Path True [''app'', ''output'', ''heartmula_20250101_120000.mp3'']"
    unfolding strftime_example using child_plain[OF ns, of "Path True [''app'', ''output'']"]
    by (simp add: plain_name_def)
  have "\<not> exists (mkdir_parents (Path True [''app'', ''output'']) (disk ex_world))
          (Path True [''app'', ''output'', ''heartmula_20250101_120000.mp3''])"
    by (simp add: exists_def mkdir_parents_def ex_ancestors ex_world_def)
  then show ?thesis
    unfolding unique_output_file_def Let_def plain by (subst probe.simps) simp
qed

lemma ex_prepare:
  "map_option (\<lambda>(f, ft, cmd, w). (f, ft, cmd))
     (prepare_gradio ex_env ex_world ''3B'' (Some ''Rock, Pop'') (Some ''la'') 240 50 1 (3 / 2) ''output'')
   = Some (Path True [''app'', ''output'', ''heartmula_20250101_120000.mp3''], ''rock,pop'',
     [''python'',
      ''.'' @ [CHR 0x5C] @ ''examples'' @ [CHR 0x5C] @ ''run_music_generation.py'',
      ''--model_path=.'' @ [CHR 0x5C] @ ''ckpt'',
      ''--version=3B'',
      ''--lyrics=.'' @ [CHR 0x5C] @ ''assets'' @ [CHR 0x5C] @ ''lyrics.txt'',
      ''--tags=.'' @ [CHR 0x5C] @ ''assets'' @ [CHR 0x5C] @ ''tags.txt'',
      ''--save_path=.'' @ [CHR 0x5C] @ ''output/heartmula_20250101_120000.mp3'',
      ''--max_audio_length_ms=240000'',
      ''--topk=50'',
      ''--temperature=1.0'',
      ''--cfg_scale=1.5''])"
proof -
  have e: "env_root ex_env = Path True [''app'']"
    "env_now ex_env = \<lparr>year = 2025, month = 1, day = 1, hour = 12, minute = 0, second = 0\<rparr>"
    by (simp_all add: ex_env_def)
  have ft: "format_tags_for_file ''Rock, Pop'' = ''rock,pop''"
    by (simp add: format_tags_for_file_def strip_def lstrip_def rstrip_def is_space_def lower_def
        lower_char_def ascii_uppercase_def ascii_lowercase_def)
  have cli: "output_path_for_cli (Path True [''app''])
        (Path True [''app'', ''output'', ''heartmula_20250101_120000.mp3''])
      = ''.'' @ [CHR 0x5C] @ ''output/heartmula_20250101_120000.mp3''"
    by (simp add: output_path_for_cli_def relative_to_def str_path_def)
  have ms: "str_int 240000 = ''240000''" "str_int 50 = ''50''"
    by (simp_all add: str_int_def str_nat.simps digit_char_def)
  show ?thesis
    unfolding prepare_gradio_def Let_def e ex_out_dir ex_unique
    by (simp add: ft cli gradio_cmd_def ms ex_env_def)
qed


section \<open>Facts about the command\<close>

lemma prepare_gradio_world:
  assumes "prepare_gradio e w ver tags lyrics len tk temp cfg out = Some (f, ft, cmd, w1)"
  shows "spawned w1 = spawned w \<and> opened w1 = opened w"
  using assms by (auto simp: prepare_gradio_def Let_def split: option.splits)

lemma run_gradio_spawned: "spawned (snd (run_gradio e w tags f ft cmd)) = spawned w @ [cmd]"
  by (simp add: run_gradio_def Let_def split: prod.split outcome.split)

lemma gradio_cmd_model_path:
  "gradio_cmd e ver cli len tk temp cfg ! 2 = ''--model_path=.'' @ [CHR 0x5C] @ ''ckpt''"
  by (simp add: gradio_cmd_def)

section \<open>Claims about the command\<close>

text \<open>
  C2: the argument list built for the external script carries the values of the request,
  among them the model path of the request under \<open>--model_path=\<close>, in both shells. The
  desktop shell builds the element from the resolved model path (\<open>desktop_cmd\<close>). The
  browser shell does not: it validates the model path of the request, and then starts a
  command whose element is the constant \<open>--model_path=.\ckpt\<close> (\<open>gradio_cmd_model_path\<close>).
  The theorem evaluates the browser \<open>generate_music\<close> on the example installation for
  the model path \<open>models2\<close>: the validation of \<open>models2\<close> succeeds, and the one command
  that is started names \<open>.\ckpt\<close>.
\<close>

theorem gradio_command_ignores_model_path:
  "validate_installation (disk ex_world) (env_root ex_env) ''models2'' = (True, [])
   \<and> spawned (snd (the (generate_music_gradio ex_env ex_world ''models2'' ''3B''
          (Some ''Rock, Pop'') (Some ''la'') 240 50 1 (3 / 2) ''output'')))
     = [[''python'',
      ''.'' @ [CHR 0x5C] @ ''examples'' @ [CHR 0x5C] @ ''run_music_generation.py'',
      ''--model_path=.'' @ [CHR 0x5C] @ ''ckpt'',
      ''--version=3B'',
      ''--lyrics=.'' @ [CHR 0x5C] @ ''assets'' @ [CHR 0x5C] @ ''lyrics.txt'',
      ''--tags=.'' @ [CHR 0x5C] @ ''assets'' @ [CHR 0x5C] @ ''tags.txt'',
      ''--save_path=.'' @ [CHR 0x5C] @ ''output/heartmula_20250101_120000.mp3'',
      ''--max_audio_length_ms=240000'',
      ''--topk=50'',
      ''--temperature=1.0'',
      ''--cfg_scale=1.5'']]"
proof -
  obtain r where p: "prepare_gradio ex_env ex_world ''3B'' (Some ''Rock, Pop'') (Some ''la'')
      240 50 1 (3 / 2) ''output'' = Some r"
    using ex_prepare by (cases "prepare_gradio ex_env ex_world ''3B'' (Some ''Rock, Pop'')
      (Some ''la'') 240 50 1 (3 / 2) ''output''") auto
  obtain f ft cmd w1 where r: "r = (f, ft, cmd, w1)" by (cases r) auto
  from ex_prepare p r have v: "f = Path True [''app'', ''output'', ''heartmula_20250101_120000.mp3'']"
    "ft = ''rock,pop''" "cmd = [''python'',
      ''.'' @ [CHR 0x5C] @ ''examples'' @ [CHR 0x5C] @ ''run_music_generation.py'',
      ''--model_path=.'' @ [CHR 0x5C] @ ''ckpt'',
      ''--version=3B'',
      ''--lyrics=.'' @ [CHR 0x5C] @ ''assets'' @ [CHR 0x5C] @ ''lyrics.txt'',
      ''--tags=.'' @ [CHR 0x5C] @ ''assets'' @ [CHR 0x5C] @ ''tags.txt'',
      ''--save_path=.'' @ [CHR 0x5C] @ ''output/heartmula_20250101_120000.mp3'',
      ''--max_audio_length_ms=240000'',
      ''--topk=50'',
      ''--temperature=1.0'',
      ''--cfg_scale=1.5'']"
    by simp_all
  from p r prepare_gradio_world have s: "spawned w1 = spawned ex_world" by blast
  have "generate_music_gradio ex_env ex_world ''models2'' ''3B''
          (Some ''Rock, Pop'') (Some ''la'') 240 50 1 (3 / 2) ''output''
        = Some (run_gradio ex_env w1 (Some ''Rock, Pop'') f ft cmd)"
    by (simp add: generate_music_gradio_def ex_validate p r)
  then have "spawned (snd (the (generate_music_gradio ex_env ex_world ''models2'' ''3B''
          (Some ''Rock, Pop'') (Some ''la'') 240 50 1 (3 / 2) ''output''))) = spawned w1 @ [cmd]"
    by (simp add: run_gradio_spawned)
  also have "\<dots> = [cmd]" by (simp add: s ex_world_def)
  finally show ?thesis using ex_validate v(3) by simp
qed

section \<open>Claims about the tags formatting\<close>


end
